theory Spec2Isabelle
  imports Complex_Main
begin

section \<open>ResourceDisposer\<close>

text \<open>
  The disposer works on objects of the rendering library. A resource (geometry, material,
  texture) and a scene-graph object are identified by a handle; what the disposer does is
  observed as the sequence of methods it invokes on those handles, together with the
  messages it writes with \<^verbatim>\<open>console.error\<close> when an invoked method throws.
  Whether a method throws is given by an oracle \<open>throws\<close>: the methods belong to the
  library (or to a mock), not to the disposer.
\<close>

type_synonym handle = nat

datatype call =
    GeometryDispose handle
  | TextureDispose handle
  | MaterialDispose handle
  | RemoveFromParent handle

datatype event = Invoke call | ConsoleError string

text \<open>
  A property of an object is missing (\<^verbatim>\<open>'geometry' in object\<close> is false), holds
  \<^verbatim>\<open>null\<close>/\<^verbatim>\<open>undefined\<close>, or holds a value.
\<close>

datatype 'a slot = Absent | Null | Present 'a

fun slot_value :: "'a slot \<Rightarrow> 'a option" where
  "slot_value Absent = None"
| "slot_value Null = None"
| "slot_value (Present v) = Some v"

text \<open>
  The enumerable properties of a material, in the order of \<^verbatim>\<open>Object.keys\<close>: a property
  is texture-valued (an object with \<^verbatim>\<open>isTexture\<close>) or anything else.
\<close>

datatype prop_value = TextureValue handle | OtherValue

record three_material =
  mat_id :: handle
  props :: "(string \<times> prop_value) list"

datatype material_value = Single three_material | Array "three_material list"

definition disposeGeometry :: "(call \<Rightarrow> bool) \<Rightarrow> handle option \<Rightarrow> event list" where
  "disposeGeometry throws geometry =
     (case geometry of
        None \<Rightarrow> []
      | Some g \<Rightarrow>
          Invoke (GeometryDispose g) #
          (if throws (GeometryDispose g) then [ConsoleError ''Error disposing geometry:''] else []))"

definition disposeTexture :: "(call \<Rightarrow> bool) \<Rightarrow> handle option \<Rightarrow> event list" where
  "disposeTexture throws texture =
     (case texture of
        None \<Rightarrow> []
      | Some t \<Rightarrow>
          Invoke (TextureDispose t) #
          (if throws (TextureDispose t) then [ConsoleError ''Error disposing texture:''] else []))"

text \<open>
  The body of \<^verbatim>\<open>materials.forEach\<close> in \<^verbatim>\<open>disposeMaterial\<close>: every texture-valued
  property is passed to \<^verbatim>\<open>disposeTexture\<close> (which catches its own errors), then the
  material's own \<^verbatim>\<open>dispose\<close> is invoked inside the \<^verbatim>\<open>try\<close>.
\<close>

fun disposeMaterial_each :: "(call \<Rightarrow> bool) \<Rightarrow> three_material \<Rightarrow> event list" where
  "disposeMaterial_each throws mat =
     concat (map (\<lambda>kv. case snd kv of
                          TextureValue t \<Rightarrow> disposeTexture throws (Some t)
                        | OtherValue \<Rightarrow> [])
                 (props mat))
     @ Invoke (MaterialDispose (mat_id mat)) #
       (if throws (MaterialDispose (mat_id mat))
        then [ConsoleError ''Error disposing material:''] else [])"

definition disposeMaterial :: "(call \<Rightarrow> bool) \<Rightarrow> material_value option \<Rightarrow> event list" where
  "disposeMaterial throws material =
     (case material of
        None \<Rightarrow> []
      | Some mv \<Rightarrow>
          (let materials = (case mv of Array ms \<Rightarrow> ms | Single m \<Rightarrow> [m])
           in concat (map (disposeMaterial_each throws) materials)))"

text \<open>
  A scene-graph object: its handle, its \<^verbatim>\<open>geometry\<close> and \<^verbatim>\<open>material\<close>
  properties and its children array.
\<close>

datatype object3d =
  Object3D (obj_id: handle) (geometry: "handle slot") (material: "material_value slot")
    (children: "object3d list")

text \<open>
  \<^verbatim>\<open>disposeObject3D\<close> on an object that is not null. The children are disposed first,
  over a copy of the children array; then the object's geometry and material, when the
  object has such properties; then \<^verbatim>\<open>removeFromParent()\<close>, the library's method that
  takes the object out of its parent's children array. The function returns the object as
  the call leaves it (a child stays attached only if its \<^verbatim>\<open>removeFromParent\<close> threw)
  and the events of the call. The outer \<^verbatim>\<open>catch\<close> can only be reached from
  \<^verbatim>\<open>removeFromParent\<close>: the helpers catch their own errors.
\<close>

fun disposeObject3D_node :: "(call \<Rightarrow> bool) \<Rightarrow> object3d \<Rightarrow> object3d \<times> event list" where
  "disposeObject3D_node throws (Object3D i g m cs) =
     (let rs = map (disposeObject3D_node throws) cs;
          remaining = filter (\<lambda>c. throws (RemoveFromParent (obj_id c))) (map fst rs);
          own_geometry = (case g of Absent \<Rightarrow> [] | _ \<Rightarrow> disposeGeometry throws (slot_value g));
          own_material = (case m of Absent \<Rightarrow> [] | _ \<Rightarrow> disposeMaterial throws (slot_value m));
          detach = Invoke (RemoveFromParent i) #
                   (if throws (RemoveFromParent i)
                    then [ConsoleError ''Error disposing Object3D:''] else [])
      in (Object3D i g m remaining, concat (map snd rs) @ own_geometry @ own_material @ detach))"

text \<open>
  \<^verbatim>\<open>disposeObject3D(object)\<close> with its guard \<^verbatim>\<open>if (!object) return\<close>. The recursive
  calls of the source pass elements of a children array, which are objects.
\<close>

definition disposeObject3D ::
  "(call \<Rightarrow> bool) \<Rightarrow> object3d option \<Rightarrow> object3d option \<times> event list" where
  "disposeObject3D throws object =
     (case object of
        None \<Rightarrow> (None, [])
      | Some obj \<Rightarrow> (Some (fst (disposeObject3D_node throws obj)),
                     snd (disposeObject3D_node throws obj)))"

subsection \<open>What a test observes\<close>

fun invocations :: "event list \<Rightarrow> call list" where
  "invocations [] = []"
| "invocations (Invoke c # es) = c # invocations es"
| "invocations (ConsoleError msg # es) = invocations es"

fun errors_logged :: "event list \<Rightarrow> string list" where
  "errors_logged [] = []"
| "errors_logged (Invoke c # es) = errors_logged es"
| "errors_logged (ConsoleError msg # es) = msg # errors_logged es"

fun is_dispose :: "call \<Rightarrow> bool" where
  "is_dispose (RemoveFromParent h) = False"
| "is_dispose c = True"

text \<open>
  The specification's order, written independently of the disposer: the objects of a graph
  depth-first with every child before its parent, and for each object the references it
  holds to resources: its geometry, then for each material the material's textures and
  the material.
\<close>

fun postorder :: "object3d \<Rightarrow> object3d list" where
  "postorder (Object3D i g m cs) = concat (map postorder cs) @ [Object3D i g m cs]"

fun material_refs :: "three_material \<Rightarrow> call list" where
  "material_refs mat =
     concat (map (\<lambda>kv. case snd kv of TextureValue t \<Rightarrow> [TextureDispose t] | OtherValue \<Rightarrow> [])
                 (props mat))
     @ [MaterialDispose (mat_id mat)]"

fun own_refs :: "object3d \<Rightarrow> call list" where
  "own_refs (Object3D i g m cs) =
     (case g of Present h \<Rightarrow> [GeometryDispose h] | _ \<Rightarrow> [])
     @ (case m of
          Present (Single mat) \<Rightarrow> material_refs mat
        | Present (Array ms) \<Rightarrow> concat (map material_refs ms)
        | _ \<Rightarrow> [])"

definition resource_refs :: "object3d \<Rightarrow> call list" where
  "resource_refs obj = concat (map own_refs (postorder obj))"

definition object_calls :: "object3d \<Rightarrow> call list" where
  "object_calls obj = own_refs obj @ [RemoveFromParent (obj_id obj)]"

text \<open>The scenario of the specification: two levels of nested children, one texture each.\<close>

definition nested_graph :: object3d where
  "nested_graph =
     Object3D 0 (Present 10) (Present (Single \<lparr>mat_id = 20, props = [(''map'', TextureValue 30)]\<rparr>))
       [Object3D 1 (Present 11)
          (Present (Single \<lparr>mat_id = 21, props = [(''color'', OtherValue), (''map'', TextureValue 31)]\<rparr>))
          [Object3D 2 (Present 12)
             (Present (Array [\<lparr>mat_id = 22, props = [(''map'', TextureValue 32)]\<rparr>])) []]]"

text \<open>Two meshes under one group that share one material, as loaded models commonly do.\<close>

definition shared_material_graph :: object3d where
  "shared_material_graph =
     Object3D 0 Absent Absent
       [Object3D 1 (Present 5) (Present (Single \<lparr>mat_id = 7, props = [(''map'', TextureValue 8)]\<rparr>)) [],
        Object3D 2 (Present 6) (Present (Single \<lparr>mat_id = 7, props = [(''map'', TextureValue 8)]\<rparr>)) []]"

definition never :: "call \<Rightarrow> bool" where
  "never c = False"

text \<open>The oracle of a run in which one method throws and no other.\<close>

definition only :: "call \<Rightarrow> call \<Rightarrow> bool" where
  "only c0 c \<longleftrightarrow> c = c0"


section \<open>ReducedMotion\<close>

text \<open>
  The class reads the browser: \<open>window\<close> is \<open>None\<close> where
  \<^verbatim>\<open>typeof window === 'undefined'\<close>, and otherwise gives, for a media query, what the
  \<^verbatim>\<open>matches\<close> field of its \<^verbatim>\<open>MediaQueryList\<close> reads now. The static field
  \<^verbatim>\<open>mediaQuery\<close> caches the list once created; it is \<open>None\<close> while
  \<^verbatim>\<open>null\<close>. Durations are JavaScript numbers, modelled as reals: the functions below
  select between numbers and compute nothing with them.
\<close>

type_synonym window = "(string \<Rightarrow> bool) option"

definition isReduced :: "window \<Rightarrow> string option \<Rightarrow> bool \<times> string option" where
  "isReduced window mediaQuery =
     (case window of
        None \<Rightarrow> (False, mediaQuery)
      | Some matches \<Rightarrow>
          (let mq = (case mediaQuery of
                       None \<Rightarrow> ''(prefers-reduced-motion: reduce)''
                     | Some q \<Rightarrow> q)
           in (matches mq, Some mq)))"

definition getDurationMultiplier :: "window \<Rightarrow> string option \<Rightarrow> real \<times> string option" where
  "getDurationMultiplier window mediaQuery =
     (if fst (isReduced window mediaQuery) then 1 / 100 else 1, snd (isReduced window mediaQuery))"

text \<open>
  \<^verbatim>\<open>getAdjustedDuration(normalDuration, reducedDuration = 0.01)\<close>: the second argument
  is \<open>None\<close> when the caller leaves it out.
\<close>

definition getAdjustedDuration ::
  "window \<Rightarrow> string option \<Rightarrow> real \<Rightarrow> real option \<Rightarrow> real \<times> string option" where
  "getAdjustedDuration window mediaQuery normalDuration reducedDuration =
     (let reduced = (case reducedDuration of None \<Rightarrow> 1 / 100 | Some r \<Rightarrow> r)
      in (if fst (isReduced window mediaQuery) then reduced else normalDuration,
          snd (isReduced window mediaQuery)))"

text \<open>A browser whose user asks for reduced motion, and one whose user does not.\<close>

definition reduced_window :: window where
  "reduced_window = Some (\<lambda>q. True)"

definition normal_window :: window where
  "normal_window = Some (\<lambda>q. False)"

section \<open>PerformanceMonitor\<close>

text \<open>
  The counters the monitor reads from the renderer (\<^verbatim>\<open>renderer.info\<close>); the renderer
  is \<open>None\<close> where the field is \<^verbatim>\<open>null\<close>. Times are the readings of
  \<^verbatim>\<open>performance.now()\<close> in milliseconds, passed to the operations that read the clock.
  Numbers are modelled as reals.
\<close>

record renderer_info =
  render_calls :: nat
  render_triangles :: nat
  memory_geometries :: nat
  memory_textures :: nat
  programs_length :: nat

record performance_metrics =
  currentFPS :: int
  averageFPS :: int
  medianFPS :: int
  minFPS :: "real option"
  maxFPS :: "real option"
  drawCalls :: nat
  triangles :: nat
  geometries :: nat
  textures :: nat
  programs :: nat
  memoryMB :: real
  frameTime :: real

record constitution_budgets =
  targetFPS :: real
  maxFrameTime :: real
  maxDrawCallsLanding :: nat
  maxDrawCallsTypical :: nat
  maxTextureMB :: real
  maxStutterDuration :: real

record performance_monitor =
  frameTimeHistory :: "real list"
  fpsHistory :: "real list"
  lastFrameTime :: real
  historySize :: nat
  budgets :: constitution_budgets
  isLandingScene :: bool
  warningThrottleTime :: real
  lastWarningTime :: real

datatype budget_warning =
    FPSBelowTarget int
  | FrameTimeExceeded real
  | DrawCallsExceeded nat nat
  | TextureMemoryExceeded real
  | StutterDetected real

text \<open>The field initialisers and the constructor; \<open>now\<close> is the clock at construction.\<close>

definition new_PerformanceMonitor :: "real \<Rightarrow> performance_monitor" where
  "new_PerformanceMonitor now =
     \<lparr>frameTimeHistory = [], fpsHistory = [], lastFrameTime = now, historySize = 120,
      budgets = \<lparr>targetFPS = 60, maxFrameTime = 167 / 10, maxDrawCallsLanding = 150,
                 maxDrawCallsTypical = 300, maxTextureMB = 64, maxStutterDuration = 250\<rparr>,
      isLandingScene = True, warningThrottleTime = 5000, lastWarningTime = 0\<rparr>"

text \<open>\<^verbatim>\<open>Math.round\<close>: the nearest integer, halves upwards.\<close>

definition math_round :: "real \<Rightarrow> int" where
  "math_round x = \<lfloor>x + 1 / 2\<rfloor>"

text \<open>
  \<^verbatim>\<open>Math.min(...arr)\<close> and \<^verbatim>\<open>Math.max(...arr)\<close>; \<open>None\<close> stands for the infinity
  JavaScript returns on an empty array.
\<close>

definition math_min :: "real list \<Rightarrow> real option" where
  "math_min arr = (case arr of [] \<Rightarrow> None | x # xs \<Rightarrow> Some (fold min xs x))"

definition math_max :: "real list \<Rightarrow> real option" where
  "math_max arr = (case arr of [] \<Rightarrow> None | x # xs \<Rightarrow> Some (fold max xs x))"

definition calculateAverage :: "real list \<Rightarrow> int" where
  "calculateAverage arr =
     (if length arr = 0 then 0 else math_round (fold (\<lambda>b a. a + b) arr 0 / real (length arr)))"

definition calculateMedian :: "real list \<Rightarrow> int" where
  "calculateMedian arr =
     (if length arr = 0 then 0
      else (let sorted = sort arr; mid = length sorted div 2
            in if length sorted mod 2 = 0
               then math_round ((sorted ! (mid - 1) + sorted ! mid) / 2)
               else math_round (sorted ! mid)))"

definition estimateMemoryUsage :: "renderer_info option \<Rightarrow> real" where
  "estimateMemoryUsage renderer =
     (let geometries = (case renderer of None \<Rightarrow> 0 | Some info \<Rightarrow> memory_geometries info);
          textures = (case renderer of None \<Rightarrow> 0 | Some info \<Rightarrow> memory_textures info)
      in real textures * 1 + real geometries * (1 / 2))"

text \<open>
  \<^verbatim>\<open>validateBudgets\<close> reads the clock itself (\<open>now\<close>); it returns the warnings it writes
  to the console, and it moves \<open>lastWarningTime\<close> when it writes any.
\<close>

definition validateBudgets ::
  "real \<Rightarrow> performance_metrics \<Rightarrow> performance_monitor \<Rightarrow> budget_warning list \<times> performance_monitor" where
  "validateBudgets now metrics pm =
     (if now - lastWarningTime pm < warningThrottleTime pm then ([], pm)
      else
        (let b = budgets pm;
             maxDrawCalls = (if isLandingScene pm then maxDrawCallsLanding b
                             else maxDrawCallsTypical b);
             warnings =
               (if real_of_int (medianFPS metrics) < targetFPS b * (9 / 10)
                then [FPSBelowTarget (medianFPS metrics)] else [])
               @ (if frameTime metrics > maxFrameTime b
                  then [FrameTimeExceeded (frameTime metrics)] else [])
               @ (if drawCalls metrics > maxDrawCalls
                  then [DrawCallsExceeded (drawCalls metrics) maxDrawCalls] else [])
               @ (if memoryMB metrics > maxTextureMB b
                  then [TextureMemoryExceeded (memoryMB metrics)] else [])
               @ (if frameTime metrics > maxStutterDuration b
                  then [StutterDetected (frameTime metrics)] else [])
         in if length warnings > 0 then (warnings, pm\<lparr>lastWarningTime := now\<rparr>)
            else ([], pm)))"

text \<open>
  \<^verbatim>\<open>update()\<close>: \<open>now\<close> is the clock read on entry, \<open>now'\<close> the clock read by
  \<^verbatim>\<open>validateBudgets\<close>. \<^verbatim>\<open>push\<close> appends at the end, \<^verbatim>\<open>shift\<close> drops the first
  element. The result is the metrics returned, the warnings written and the monitor after
  the call.
\<close>

definition update ::
  "renderer_info option \<Rightarrow> real \<Rightarrow> real \<Rightarrow> performance_monitor \<Rightarrow>
   performance_metrics \<times> budget_warning list \<times> performance_monitor" where
  "update renderer now now' pm =
     (let frameTime = now - lastFrameTime pm;
          pm1 = pm\<lparr>lastFrameTime := now\<rparr>;
          fps = (if frameTime > 0 then 1000 / frameTime else 60);
          pm2 = pm1\<lparr>frameTimeHistory := frameTimeHistory pm1 @ [frameTime],
                     fpsHistory := fpsHistory pm1 @ [fps]\<rparr>;
          pm3 = (if length (frameTimeHistory pm2) > historySize pm2
                 then pm2\<lparr>frameTimeHistory := tl (frameTimeHistory pm2),
                          fpsHistory := tl (fpsHistory pm2)\<rparr>
                 else pm2);
          metrics =
            \<lparr>currentFPS = math_round fps,
             averageFPS = calculateAverage (fpsHistory pm3),
             medianFPS = calculateMedian (fpsHistory pm3),
             minFPS = math_min (fpsHistory pm3),
             maxFPS = math_max (fpsHistory pm3),
             drawCalls = (case renderer of None \<Rightarrow> 0 | Some info \<Rightarrow> render_calls info),
             triangles = (case renderer of None \<Rightarrow> 0 | Some info \<Rightarrow> render_triangles info),
             geometries = (case renderer of None \<Rightarrow> 0 | Some info \<Rightarrow> memory_geometries info),
             textures = (case renderer of None \<Rightarrow> 0 | Some info \<Rightarrow> memory_textures info),
             programs = (case renderer of None \<Rightarrow> 0 | Some info \<Rightarrow> programs_length info),
             memoryMB = estimateMemoryUsage renderer,
             frameTime = real_of_int (math_round (frameTime * 100)) / 100\<rparr>;
          validated = validateBudgets now' metrics pm3
      in (metrics, fst validated, snd validated))"

definition setIsLandingScene :: "bool \<Rightarrow> performance_monitor \<Rightarrow> performance_monitor" where
  "setIsLandingScene isLanding pm = pm\<lparr>isLandingScene := isLanding\<rparr>"

text \<open>\<^verbatim>\<open>getMetrics()\<close>: \<open>None\<close> is the \<^verbatim>\<open>null\<close> it returns on an empty history.\<close>

definition getMetrics :: "renderer_info option \<Rightarrow> performance_monitor \<Rightarrow> performance_metrics option" where
  "getMetrics renderer pm =
     (if length (fpsHistory pm) = 0 then None
      else Some
        \<lparr>currentFPS = math_round (last (fpsHistory pm)),
         averageFPS = calculateAverage (fpsHistory pm),
         medianFPS = calculateMedian (fpsHistory pm),
         minFPS = math_min (fpsHistory pm),
         maxFPS = math_max (fpsHistory pm),
         drawCalls = (case renderer of None \<Rightarrow> 0 | Some info \<Rightarrow> render_calls info),
         triangles = (case renderer of None \<Rightarrow> 0 | Some info \<Rightarrow> render_triangles info),
         geometries = (case renderer of None \<Rightarrow> 0 | Some info \<Rightarrow> memory_geometries info),
         textures = (case renderer of None \<Rightarrow> 0 | Some info \<Rightarrow> memory_textures info),
         programs = (case renderer of None \<Rightarrow> 0 | Some info \<Rightarrow> programs_length info),
         memoryMB = estimateMemoryUsage renderer,
         frameTime = (if frameTimeHistory pm = [] then 0 else last (frameTimeHistory pm))\<rparr>)"

definition reset :: "real \<Rightarrow> performance_monitor \<Rightarrow> performance_monitor" where
  "reset now pm = pm\<lparr>frameTimeHistory := [], fpsHistory := [], lastFrameTime := now\<rparr>"

text \<open>
  The calls a client can make on a monitor, with the clock readings and the renderer
  counters of each call, and the monitor after a sequence of them.
\<close>

datatype monitor_call =
    Update "renderer_info option" real real
  | SetIsLandingScene bool
  | GetMetrics "renderer_info option"
  | Reset real

fun monitor_step :: "performance_monitor \<Rightarrow> monitor_call \<Rightarrow> performance_monitor" where
  "monitor_step pm (Update renderer now now') = snd (snd (update renderer now now' pm))"
| "monitor_step pm (SetIsLandingScene isLanding) = setIsLandingScene isLanding pm"
| "monitor_step pm (GetMetrics renderer) = pm"
| "monitor_step pm (Reset now) = reset now pm"

definition monitor_run :: "monitor_call list \<Rightarrow> performance_monitor \<Rightarrow> performance_monitor" where
  "monitor_run calls pm = foldl monitor_step pm calls"

text \<open>
  The number of \<^verbatim>\<open>update()\<close> calls of a sequence that come after its last
  \<^verbatim>\<open>reset()\<close> (all of them when it has none).
\<close>

fun is_Update :: "monitor_call \<Rightarrow> bool" where
  "is_Update (Update renderer now now') = True"
| "is_Update c = False"

fun is_Reset :: "monitor_call \<Rightarrow> bool" where
  "is_Reset (Reset now) = True"
| "is_Reset c = False"

definition updates_since_reset :: "monitor_call list \<Rightarrow> nat" where
  "updates_since_reset calls =
     length (filter is_Update (takeWhile (\<lambda>c. \<not> is_Reset c) (rev calls)))"

text \<open>The frame time and the FPS sample that an \<^verbatim>\<open>update()\<close> at time \<open>now\<close> records.\<close>

definition frame_sample :: "real \<Rightarrow> performance_monitor \<Rightarrow> real" where
  "frame_sample now pm = now - lastFrameTime pm"

definition fps_sample :: "real \<Rightarrow> performance_monitor \<Rightarrow> real" where
  "fps_sample now pm = (if now - lastFrameTime pm > 0 then 1000 / (now - lastFrameTime pm) else 60)"

text \<open>The invariant of the monitor: the two histories run in step, within the capacity.\<close>

definition monitor_inv :: "performance_monitor \<Rightarrow> bool" where
  "monitor_inv pm \<longleftrightarrow>
     historySize pm = 120 \<and> length (frameTimeHistory pm) = length (fpsHistory pm)
     \<and> length (fpsHistory pm) \<le> 120"

section \<open>AssetLoader\<close>

text \<open>
  \<^verbatim>\<open>loadModel\<close> and \<^verbatim>\<open>loadTexture\<close> are asynchronous: a call runs to its first
  \<^verbatim>\<open>await\<close> and is resumed when the awaited promise settles, and other calls run in
  between. A call in progress is a task; the loader with its tasks moves by the inputs it
  receives: a call, the settling of a task's underlying load, the end of a task's backoff
  delay. The two functions are the same text up to the cache, the underlying loader and
  the messages, so one set of definitions, indexed by the kind of asset, embeds both.
  Loaded assets are handles.
\<close>

type_synonym url = string

datatype asset_kind = Model | Texture

text \<open>
  An error is what the underlying loader rejected with, the error that the loading
  manager's hook builds (\<^verbatim>\<open>Failed to load: url\<close>), or the error built after the last
  attempt (\<^verbatim>\<open>Failed to load model|texture url after maxRetries attempts\<close>).
\<close>

datatype load_error =
    Underlying string
  | FailedToLoad url
  | AfterAttempts asset_kind url nat

text \<open>
  What a test observes: the calls of the underlying loader's \<^verbatim>\<open>load\<close>, the warnings
  (kind, url, \<open>attempt + 1\<close>, \<open>maxRetries\<close>, error), the backoff delays in milliseconds and
  the calls of the registered error callback.
\<close>

datatype loader_event =
    Fetch asset_kind url
  | Warn asset_kind url nat nat load_error
  | Delay nat
  | ErrorCallback url load_error

datatype phase = AwaitLoad | AwaitDelay | Resolved handle | Rejected load_error

record load_task =
  kind :: asset_kind
  task_url :: url
  maxRetries :: nat
  attempt :: nat
  lastError :: "load_error option"
  phase :: phase

record asset_loader =
  modelCache :: "url \<Rightarrow> handle option"
  textureCache :: "url \<Rightarrow> handle option"
  onErrorCallback :: bool
  tasks :: "load_task list"
  trace :: "loader_event list"

text \<open>A new loader: empty caches, no callback registered.\<close>

definition new_AssetLoader :: asset_loader where
  "new_AssetLoader =
     \<lparr>modelCache = (\<lambda>u. None), textureCache = (\<lambda>u. None), onErrorCallback = False,
      tasks = [], trace = []\<rparr>"


definition cache_of :: "asset_kind \<Rightarrow> asset_loader \<Rightarrow> url \<Rightarrow> handle option" where
  "cache_of k s = (case k of Model \<Rightarrow> modelCache s | Texture \<Rightarrow> textureCache s)"

definition cache_set :: "asset_kind \<Rightarrow> url \<Rightarrow> handle \<Rightarrow> asset_loader \<Rightarrow> asset_loader" where
  "cache_set k u v s =
     (case k of
        Model \<Rightarrow> s\<lparr>modelCache := (modelCache s)(u \<mapsto> v)\<rparr>
      | Texture \<Rightarrow> s\<lparr>textureCache := (textureCache s)(u \<mapsto> v)\<rparr>)"

text \<open>
  The head of the \<^verbatim>\<open>for\<close> loop and what follows the loop. While
  \<open>attempt < maxRetries\<close> the task calls the underlying loader and awaits it. Otherwise all
  retries have failed: the registered callback, if any, receives the url and
  \<^verbatim>\<open>lastError || new Error(errorMessage)\<close>, and the call rejects with the new error.
\<close>

definition enter_loop :: "bool \<Rightarrow> load_task \<Rightarrow> load_task \<times> loader_event list" where
  "enter_loop registered t =
     (if attempt t < maxRetries t
      then (t\<lparr>phase := AwaitLoad\<rparr>, [Fetch (kind t) (task_url t)])
      else
        (let errorMessage = AfterAttempts (kind t) (task_url t) (maxRetries t)
         in (t\<lparr>phase := Rejected errorMessage\<rparr>,
             if registered
             then [ErrorCallback (task_url t)
                     (case lastError t of None \<Rightarrow> errorMessage | Some e \<Rightarrow> e)]
             else [])))"

text \<open>
  A call: the cache is checked first, and a hit resolves with the cached asset without a
  load. \<open>retries\<close> is \<open>None\<close> when the caller leaves \<^verbatim>\<open>maxRetries = 3\<close> to its default.
\<close>

definition load_call :: "asset_kind \<Rightarrow> url \<Rightarrow> nat option \<Rightarrow> asset_loader \<Rightarrow> asset_loader" where
  "load_call k u retries s =
     (let t0 = \<lparr>kind = k, task_url = u,
                maxRetries = (case retries of None \<Rightarrow> 3 | Some n \<Rightarrow> n),
                attempt = 0, lastError = None, phase = AwaitLoad\<rparr>
      in case cache_of k s u of
           Some v \<Rightarrow> s\<lparr>tasks := tasks s @ [t0\<lparr>phase := Resolved v\<rparr>]\<rparr>
         | None \<Rightarrow>
             (let r = enter_loop (onErrorCallback s) t0
              in s\<lparr>tasks := tasks s @ [fst r], trace := trace s @ snd r\<rparr>))"

definition loadModel :: "url \<Rightarrow> nat option \<Rightarrow> asset_loader \<Rightarrow> asset_loader" where
  "loadModel u retries s = load_call Model u retries s"

definition loadTexture :: "url \<Rightarrow> nat option \<Rightarrow> asset_loader \<Rightarrow> asset_loader" where
  "loadTexture u retries s = load_call Texture u retries s"

text \<open>
  The underlying load of task \<open>i\<close> settles. On success the asset is cached and returned.
  On failure the \<^verbatim>\<open>catch\<close> block records the error and warns; if
  \<open>attempt < maxRetries - 1\<close> the task awaits a delay of \<open>2 ^ attempt * 1000\<close> ms, and
  otherwise the loop goes on to its next iteration at once. (In the loop
  \<open>attempt < maxRetries\<close>, so the subtraction is that of the source.)
\<close>

definition load_settled :: "nat \<Rightarrow> load_error + handle \<Rightarrow> asset_loader \<Rightarrow> asset_loader" where
  "load_settled i outcome s =
     (if i < length (tasks s) \<and> phase (tasks s ! i) = AwaitLoad
      then
        (let t = tasks s ! i
         in case outcome of
              Inr v \<Rightarrow>
                (cache_set (kind t) (task_url t) v s)\<lparr>tasks := (tasks s)[i := t\<lparr>phase := Resolved v\<rparr>]\<rparr>
            | Inl e \<Rightarrow>
                (let t1 = t\<lparr>lastError := Some e\<rparr>;
                     warn = Warn (kind t) (task_url t) (attempt t + 1) (maxRetries t) e
                 in if attempt t < maxRetries t - 1
                    then s\<lparr>tasks := (tasks s)[i := t1\<lparr>phase := AwaitDelay\<rparr>],
                           trace := trace s @ [warn, Delay (2 ^ attempt t * 1000)]\<rparr>
                    else
                      (let r = enter_loop (onErrorCallback s) (t1\<lparr>attempt := attempt t + 1\<rparr>)
                       in s\<lparr>tasks := (tasks s)[i := fst r],
                             trace := trace s @ warn # snd r\<rparr>)))
      else s)"

text \<open>The backoff delay of task \<open>i\<close> ends: the loop goes on to its next iteration.\<close>

definition delay_elapsed :: "nat \<Rightarrow> asset_loader \<Rightarrow> asset_loader" where
  "delay_elapsed i s =
     (if i < length (tasks s) \<and> phase (tasks s ! i) = AwaitDelay
      then
        (let t = tasks s ! i;
             r = enter_loop (onErrorCallback s) (t\<lparr>attempt := attempt t + 1\<rparr>)
         in s\<lparr>tasks := (tasks s)[i := fst r], trace := trace s @ snd r\<rparr>)
      else s)"

text \<open>
  The hook the constructor installs on the loading manager: when the library reports an
  item error to the manager, the registered callback receives a new error for the url.
  Both loaders are built on this manager. When a load fails, the library's loader calls
  the error callback passed to \<^verbatim>\<open>load\<close>, which rejects the promise the task awaits,
  and reports the item to the manager, whose hook runs at once, before the task is
  resumed: a failed load of task \<open>i\<close> reaches the loader as \<open>ManagerError url\<close> followed
  by \<open>LoadSettled i (Inl e)\<close>.
\<close>

definition manager_onError :: "url \<Rightarrow> asset_loader \<Rightarrow> asset_loader" where
  "manager_onError u s =
     (if onErrorCallback s then s\<lparr>trace := trace s @ [ErrorCallback u (FailedToLoad u)]\<rparr> else s)"

datatype loader_input =
    Call asset_kind url "nat option"
  | LoadSettled nat "load_error + handle"
  | DelayElapsed nat
  | ManagerError url

fun loader_step :: "asset_loader \<Rightarrow> loader_input \<Rightarrow> asset_loader" where
  "loader_step s (Call Model u retries) = loadModel u retries s"
| "loader_step s (Call Texture u retries) = loadTexture u retries s"
| "loader_step s (LoadSettled i outcome) = load_settled i outcome s"
| "loader_step s (DelayElapsed i) = delay_elapsed i s"
| "loader_step s (ManagerError u) = manager_onError u s"

definition loader_run :: "loader_input list \<Rightarrow> asset_loader \<Rightarrow> asset_loader" where
  "loader_run inputs s = foldl loader_step s inputs"

text \<open>The underlying loads issued for a url, and what each caller has received.\<close>

definition fetches :: "asset_kind \<Rightarrow> url \<Rightarrow> asset_loader \<Rightarrow> nat" where
  "fetches k u s = count_list (trace s) (Fetch k u)"

definition outcomes :: "asset_loader \<Rightarrow> phase list" where
  "outcomes s = map phase (tasks s)"




section \<open>CameraController\<close>

text \<open>
  The controller drives the animation library: \<^verbatim>\<open>gsap.timeline\<close> creates a timeline,
  which plays at once, \<^verbatim>\<open>kill()\<close> stops one for good, and the library calls a
  running timeline's \<^verbatim>\<open>onStart\<close>, \<^verbatim>\<open>onUpdate\<close> and \<^verbatim>\<open>onComplete\<close>; a killed
  timeline receives no callback. The timelines that \<^verbatim>\<open>transitionTo\<close> has created are
  kept in a list, each with the promise that the call returned; a timeline's index is its
  identity.
\<close>

type_synonym vec3 = "real \<times> real \<times> real"

datatype tween_status = Running | Killed | Completed

datatype promise_state = Pending | Fulfilled | RejectedWith string

record camera_transition_options =
  duration :: "real option"
  ease :: "string option"
  onStart :: bool
  onUpdate :: bool
  onComplete :: bool

text \<open>
  A timeline: \<open>rendered\<close> is set by the library's first tick on it, \<open>to_position\<close> is
  the target of the position tween, \<open>to_lookAt\<close> that of the look-at tween once it has
  been added, and \<open>promise\<close> is the state of the promise returned with the timeline.
\<close>

record timeline =
  status :: tween_status
  rendered :: bool
  to_position :: vec3
  to_lookAt :: "vec3 option"
  tween_duration :: real
  tween_ease :: string
  options :: camera_transition_options
  promise :: promise_state

datatype hook = OnStart nat | OnUpdate nat | OnComplete nat

record camera_controller =
  camera_position :: vec3
  camera_lookAt :: "vec3 option"
  camera_aspect :: real
  activeTween :: "nat option"
  timelines :: "timeline list"
  hooks :: "hook list"
  parallax :: "(real \<times> real) list"

definition new_CameraController :: "vec3 \<Rightarrow> camera_controller" where
  "new_CameraController p =
     \<lparr>camera_position = p, camera_lookAt = None, camera_aspect = 1, activeTween = None,
      timelines = [], hooks = [], parallax = []\<rparr>"

text \<open>The library's \<^verbatim>\<open>kill()\<close> on timeline \<open>t\<close>: a running timeline stops.\<close>

definition kill :: "nat \<Rightarrow> camera_controller \<Rightarrow> camera_controller" where
  "kill t c =
     (if t < length (timelines c) \<and> status (timelines c ! t) = Running
      then c\<lparr>timelines := (timelines c)[t := (timelines c ! t)\<lparr>status := Killed\<rparr>]\<rparr>
      else c)"

text \<open>
  The library's \<^verbatim>\<open>isActive()\<close>: the playhead is moving over a timeline that has been
  rendered; it is false between the creation of a timeline and the library's first tick.
\<close>

definition isActive :: "timeline \<Rightarrow> bool" where
  "isActive line \<longleftrightarrow> status line = Running \<and> rendered line"

text \<open>
  The camera is a \<^verbatim>\<open>THREE.PerspectiveCamera\<close>. The library's
  \<^verbatim>\<open>getWorldDirection(target)\<close> writes the direction into its argument with
  \<^verbatim>\<open>target.set(...)\<close>: given a vector of the library it returns, and given an object
  literal, which has no \<^verbatim>\<open>set\<close> method, it throws a \<^verbatim>\<open>TypeError\<close>. The direction
  itself is used by no call modelled here.
\<close>

datatype direction_target = ObjectLiteral | Vector3

definition getWorldDirection :: "direction_target \<Rightarrow> string + unit" where
  "getWorldDirection target =
     (case target of
        Vector3 \<Rightarrow> Inr ()
      | ObjectLiteral \<Rightarrow> Inl ''TypeError: target.set is not a function'')"

text \<open>
  \<^verbatim>\<open>if (this.activeTween) { this.activeTween.kill(); this.activeTween = null; }\<close>,
  the text of \<^verbatim>\<open>cancelTransition\<close> and the opening of \<^verbatim>\<open>transitionTo\<close> and
  \<^verbatim>\<open>setPosition\<close>.
\<close>

definition cancelTransition :: "camera_controller \<Rightarrow> camera_controller" where
  "cancelTransition c =
     (case activeTween c of
        None \<Rightarrow> c
      | Some t \<Rightarrow> (kill t c)\<lparr>activeTween := None\<rparr>)"

text \<open>
  \<^verbatim>\<open>transitionTo(position, target, options)\<close>. After the cancellation and the
  adjustment of the duration, the executor of the returned promise runs at once. It
  creates the timeline, whose \<^verbatim>\<open>onComplete\<close> is to resolve the promise, and adds the
  position tween. It then calls \<^verbatim>\<open>this.camera.getWorldDirection(tempTarget)\<close> with
  the object literal \<^verbatim>\<open>{ x: 0, y: 0, z: 0 }\<close>. If that call throws, the executor
  stops there: the promise is rejected with the error, and neither the look-at tween is
  added nor \<^verbatim>\<open>this.activeTween = timeline\<close> executed, while the timeline created
  plays on. If it returns, the look-at tween is added and the timeline is stored in
  \<^verbatim>\<open>activeTween\<close>. The result is the identity of the timeline and its promise, and
  the controller.
\<close>

definition transitionTo ::
  "window \<Rightarrow> string option \<Rightarrow> vec3 \<Rightarrow> vec3 \<Rightarrow> camera_transition_options \<Rightarrow>
   camera_controller \<Rightarrow> nat \<times> camera_controller" where
  "transitionTo window mediaQuery position target opts c =
     (let c1 = cancelTransition c;
          d = (case duration opts of None \<Rightarrow> 6 / 10 | Some v \<Rightarrow> v);
          e = (case ease opts of None \<Rightarrow> ''power2.inOut'' | Some v \<Rightarrow> v);
          adjustedDuration = fst (getAdjustedDuration window mediaQuery d (Some (1 / 100)));
          tl = \<lparr>status = Running, rendered = False, to_position = position, to_lookAt = None,
                tween_duration = adjustedDuration, tween_ease = e, options = opts,
                promise = Pending\<rparr>;
          t = length (timelines c1)
      in case getWorldDirection ObjectLiteral of
           Inl err \<Rightarrow>
             (t, c1\<lparr>timelines := timelines c1 @ [tl\<lparr>promise := RejectedWith err\<rparr>]\<rparr>)
         | Inr u \<Rightarrow>
             (t, c1\<lparr>timelines := timelines c1 @ [tl\<lparr>to_lookAt := Some target\<rparr>],
                   activeTween := Some t\<rparr>))"

definition setPosition :: "vec3 \<Rightarrow> vec3 option \<Rightarrow> camera_controller \<Rightarrow> camera_controller" where
  "setPosition position target c =
     (let c1 = cancelTransition c;
          c2 = c1\<lparr>camera_position := position\<rparr>
      in case target of None \<Rightarrow> c2 | Some v \<Rightarrow> c2\<lparr>camera_lookAt := Some v\<rparr>)"

text \<open>\<^verbatim>\<open>this.activeTween !== null && this.activeTween.isActive()\<close>.\<close>

definition isTransitioning :: "camera_controller \<Rightarrow> bool" where
  "isTransitioning c =
     (case activeTween c of
        None \<Rightarrow> False
      | Some t \<Rightarrow> t < length (timelines c) \<and> isActive (timelines c ! t))"

text \<open>
  \<^verbatim>\<open>applyParallax\<close> starts a tween of the library that the controller does not keep;
  its offsets are recorded.
\<close>

definition applyParallax :: "real \<Rightarrow> real \<Rightarrow> real option \<Rightarrow> camera_controller \<Rightarrow> camera_controller" where
  "applyParallax pointerX pointerY strength c =
     (if isTransitioning c then c
      else (let k = (case strength of None \<Rightarrow> 2 / 100 | Some v \<Rightarrow> v)
            in c\<lparr>parallax := parallax c @ [(pointerX * k, pointerY * k)]\<rparr>))"

definition updateAspect :: "real \<Rightarrow> real \<Rightarrow> camera_controller \<Rightarrow> camera_controller" where
  "updateAspect width height c = c\<lparr>camera_aspect := width / height\<rparr>"

definition dispose :: "camera_controller \<Rightarrow> camera_controller" where
  "dispose c = cancelTransition c"

text \<open>
  The callbacks that \<^verbatim>\<open>transitionTo\<close> gives to the timeline, called by the library on
  a running timeline \<open>t\<close>. The first tick renders the timeline and calls
  \<^verbatim>\<open>onStart\<close>. On an update the library has moved the camera to \<open>p\<close>, and, if the
  timeline has a look-at tween, the look-at point to \<open>d\<close>. \<^verbatim>\<open>onComplete\<close> clears
  \<^verbatim>\<open>activeTween\<close>, calls the caller's hook and calls \<^verbatim>\<open>resolve()\<close>, which
  fulfils the promise if it is pending and does nothing to a promise already settled;
  the timeline has then completed.
\<close>

definition timeline_onStart :: "nat \<Rightarrow> camera_controller \<Rightarrow> camera_controller" where
  "timeline_onStart t c =
     (if t < length (timelines c) \<and> status (timelines c ! t) = Running
      then (let c1 = c\<lparr>timelines := (timelines c)[t := (timelines c ! t)\<lparr>rendered := True\<rparr>]\<rparr>
            in if onStart (options (timelines c ! t)) then c1\<lparr>hooks := hooks c1 @ [OnStart t]\<rparr>
               else c1)
      else c)"

definition timeline_onUpdate :: "nat \<Rightarrow> vec3 \<Rightarrow> vec3 \<Rightarrow> camera_controller \<Rightarrow> camera_controller" where
  "timeline_onUpdate t p d c =
     (if t < length (timelines c) \<and> status (timelines c ! t) = Running
      then (let c1 = c\<lparr>camera_position := p\<rparr>;
                c2 = (case to_lookAt (timelines c ! t) of
                        None \<Rightarrow> c1
                      | Some v \<Rightarrow> c1\<lparr>camera_lookAt := Some d\<rparr>)
            in if onUpdate (options (timelines c ! t)) then c2\<lparr>hooks := hooks c2 @ [OnUpdate t]\<rparr>
               else c2)
      else c)"

definition resolve :: "promise_state \<Rightarrow> promise_state" where
  "resolve p = (case p of Pending \<Rightarrow> Fulfilled | _ \<Rightarrow> p)"

definition timeline_onComplete :: "nat \<Rightarrow> camera_controller \<Rightarrow> camera_controller" where
  "timeline_onComplete t c =
     (if t < length (timelines c) \<and> status (timelines c ! t) = Running
      then (let c1 = c\<lparr>activeTween := None\<rparr>;
                c2 = (if onComplete (options (timelines c ! t))
                      then c1\<lparr>hooks := hooks c1 @ [OnComplete t]\<rparr> else c1)
            in c2\<lparr>timelines := (timelines c)[t := (timelines c ! t)
                     \<lparr>status := Completed, promise := resolve (promise (timelines c ! t))\<rparr>]\<rparr>)
      else c)"

datatype camera_input =
    TransitionTo vec3 vec3 camera_transition_options
  | SetPosition vec3 "vec3 option"
  | CancelTransition
  | ApplyParallax real real "real option"
  | UpdateAspect real real
  | Dispose
  | TimelineStart nat
  | TimelineUpdate nat vec3 vec3
  | TimelineComplete nat

fun camera_step :: "window \<Rightarrow> camera_controller \<Rightarrow> camera_input \<Rightarrow> camera_controller" where
  "camera_step w c (TransitionTo position target opts) = snd (transitionTo w None position target opts c)"
| "camera_step w c (SetPosition position target) = setPosition position target c"
| "camera_step w c CancelTransition = cancelTransition c"
| "camera_step w c (ApplyParallax px py strength) = applyParallax px py strength c"
| "camera_step w c (UpdateAspect width height) = updateAspect width height c"
| "camera_step w c Dispose = dispose c"
| "camera_step w c (TimelineStart t) = timeline_onStart t c"
| "camera_step w c (TimelineUpdate t p d) = timeline_onUpdate t p d c"
| "camera_step w c (TimelineComplete t) = timeline_onComplete t c"

definition camera_run :: "window \<Rightarrow> camera_input list \<Rightarrow> camera_controller \<Rightarrow> camera_controller" where
  "camera_run w inputs c = foldl (camera_step w) c inputs"

text \<open>The number of transitions that are running, and the state of a timeline.\<close>

definition running :: "camera_controller \<Rightarrow> nat" where
  "running c = length (filter (\<lambda>tl. status tl = Running) (timelines c))"

definition status_of :: "camera_controller \<Rightarrow> nat \<Rightarrow> tween_status option" where
  "status_of c t = (if t < length (timelines c) then Some (status (timelines c ! t)) else None)"

definition promise_of :: "camera_controller \<Rightarrow> nat \<Rightarrow> promise_state option" where
  "promise_of c t = (if t < length (timelines c) then Some (promise (timelines c ! t)) else None)"

definition default_options :: camera_transition_options where
  "default_options = \<lparr>duration = None, ease = None, onStart = False, onUpdate = False, onComplete = False\<rparr>"

section \<open>SceneManager\<close>

text \<open>
  Modelled from the spec: the SceneManager class, whose source file
  (\<^verbatim>\<open>core/SceneManager.ts\<close>) is not among the sources of the repository. The
  definitions below follow sections 3 and 4.7 of the specification: the states
  \<^verbatim>\<open>Idle(sceneId)\<close>, \<^verbatim>\<open>Initializing(targetSceneId)\<close> and
  \<^verbatim>\<open>Transitioning(fromId, toId, progress)\<close>, the SceneTransitionState record, and the
  transition protocol in its six steps.
\<close>

datatype manager_state =
    Idle string
  | Initializing string
  | Transitioning string string real

datatype navigation_result = TransitionStarted | TransitionRejected

text \<open>
  Modelled from the spec: the SceneTransitionState (\<open>transitioning\<close> is its
  \<^verbatim>\<open>isTransitioning\<close>), with the state of the machine, whether the target scene's
  \<^verbatim>\<open>init()\<close> has completed, the transitions that have been entered and have neither
  completed nor been aborted, and the scenes disposed and mounted so far.
\<close>

record scene_manager =
  machine :: manager_state
  currentSceneId :: string
  previousSceneId :: "string option"
  transitioning :: bool
  transitionProgress :: real
  targetReady :: bool
  inFlight :: "(string \<times> string) list"
  disposedScenes :: "string list"
  mountedScenes :: "string list"

text \<open>
  Modelled from the spec: the initial state, \<^verbatim>\<open>Initializing\<close> for the first scene at
  application start, and the first scene becoming ready.
\<close>

definition new_SceneManager :: "string \<Rightarrow> scene_manager" where
  "new_SceneManager first =
     \<lparr>machine = Initializing first, currentSceneId = first, previousSceneId = None,
      transitioning = False, transitionProgress = 0, targetReady = False, inFlight = [],
      disposedScenes = [], mountedScenes = []\<rparr>"

definition first_ready :: "scene_manager \<Rightarrow> scene_manager" where
  "first_ready m =
     (case machine m of
        Initializing a \<Rightarrow> m\<lparr>machine := Idle a, mountedScenes := mountedScenes m @ [a]\<rparr>
      | _ \<Rightarrow> m)"

text \<open>
  Modelled from the spec: steps 1 and 2 of the protocol. The request is rejected, a
  no-op, if the manager is already \<^verbatim>\<open>Transitioning\<close> or if \<open>toId\<close> is the current
  scene; otherwise the manager enters \<^verbatim>\<open>Transitioning\<close> and sets
  \<^verbatim>\<open>isTransitioning\<close>.
\<close>

definition navigate :: "string \<Rightarrow> scene_manager \<Rightarrow> navigation_result \<times> scene_manager" where
  "navigate toId m =
     (case machine m of
        Transitioning a b p \<Rightarrow> (TransitionRejected, m)
      | _ \<Rightarrow>
          if toId = currentSceneId m then (TransitionRejected, m)
          else (TransitionStarted,
                m\<lparr>machine := Transitioning (currentSceneId m) toId 0, transitioning := True,
                  transitionProgress := 0, targetReady := False,
                  inFlight := inFlight m @ [(currentSceneId m, toId)]\<rparr>))"

text \<open>
  Modelled from the spec: step 3, the failure of the target scene's \<^verbatim>\<open>init()\<close>: the
  transition is aborted and the manager remains on scene A, which is not disposed.
\<close>

definition init_failed :: "scene_manager \<Rightarrow> scene_manager" where
  "init_failed m =
     (case machine m of
        Transitioning a b p \<Rightarrow>
          if targetReady m then m
          else m\<lparr>machine := Idle a, transitioning := False, inFlight := []\<rparr>
      | _ \<Rightarrow> m)"

text \<open>
  Modelled from the spec: step 4, once B is ready: the camera transition is started, A is
  disposed and B is mounted.
\<close>

definition init_succeeded :: "scene_manager \<Rightarrow> scene_manager" where
  "init_succeeded m =
     (case machine m of
        Transitioning a b p \<Rightarrow>
          if targetReady m then m
          else m\<lparr>targetReady := True, disposedScenes := disposedScenes m @ [a],
                  mountedScenes := mountedScenes m @ [b]\<rparr>
      | _ \<Rightarrow> m)"

text \<open>
  Modelled from the spec: the progress of the camera transition, clamped to the interval
  from 0 to 1 and never decreasing within a transition.
\<close>

definition camera_progress :: "real \<Rightarrow> scene_manager \<Rightarrow> scene_manager" where
  "camera_progress q m =
     (case machine m of
        Transitioning a b p \<Rightarrow>
          if targetReady m
          then (let p' = max p (min 1 (max 0 q))
                in m\<lparr>machine := Transitioning a b p', transitionProgress := p'\<rparr>)
          else m
      | _ \<Rightarrow> m)"

text \<open>
  Modelled from the spec: step 5, the completion of the camera transition:
  \<^verbatim>\<open>isTransitioning = false\<close>, \<^verbatim>\<open>currentSceneId = B\<close>, \<^verbatim>\<open>previousSceneId = A\<close>,
  and the manager returns to \<^verbatim>\<open>Idle(B)\<close>.
\<close>

definition camera_completed :: "scene_manager \<Rightarrow> scene_manager" where
  "camera_completed m =
     (case machine m of
        Transitioning a b p \<Rightarrow>
          if targetReady m
          then m\<lparr>machine := Idle b, transitioning := False, currentSceneId := b,
                 previousSceneId := Some a, inFlight := []\<rparr>
          else m
      | _ \<Rightarrow> m)"

text \<open>
  Modelled from the spec: what reaches the manager, namely navigation requests and the
  completions of the asynchronous operations it awaits, and the manager after a sequence
  of them.
\<close>

datatype manager_input =
    Navigate string
  | FirstReady
  | InitSucceeded
  | InitFailed
  | CameraProgress real
  | CameraCompleted

fun manager_step :: "scene_manager \<Rightarrow> manager_input \<Rightarrow> scene_manager" where
  "manager_step m (Navigate toId) = snd (navigate toId m)"
| "manager_step m FirstReady = first_ready m"
| "manager_step m InitSucceeded = init_succeeded m"
| "manager_step m InitFailed = init_failed m"
| "manager_step m (CameraProgress q) = camera_progress q m"
| "manager_step m CameraCompleted = camera_completed m"

definition manager_run :: "manager_input list \<Rightarrow> scene_manager \<Rightarrow> scene_manager" where
  "manager_run inputs m = foldl manager_step m inputs"

text \<open>Modelled from the spec: whether the machine is in a \<^verbatim>\<open>Transitioning\<close> state.\<close>

fun is_Transitioning :: "manager_state \<Rightarrow> bool" where
  "is_Transitioning (Transitioning a b p) = True"
| "is_Transitioning s = False"

text \<open>
  Modelled from the spec: the invariant of the manager. A transition is in flight exactly
  while the machine is \<^verbatim>\<open>Transitioning\<close>, which is exactly while
  \<^verbatim>\<open>isTransitioning\<close> is set, and there is never more than one.
\<close>

definition manager_inv :: "scene_manager \<Rightarrow> bool" where
  "manager_inv m \<longleftrightarrow>
     transitioning m = is_Transitioning (machine m)
     \<and> length (inFlight m) = (if is_Transitioning (machine m) then 1 else 0)"
section \<open>Properties of the ResourceDisposer\<close>

lemma invocations_append: "invocations (xs @ ys) = invocations xs @ invocations ys"
  by (induction xs rule: invocations.induct) simp_all

lemma invocations_concat: "invocations (concat xss) = concat (map invocations xss)"
  by (induction xss) (simp_all add: invocations_append)

lemma invocations_disposeGeometry:
  "invocations (disposeGeometry throws g) = (case g of None \<Rightarrow> [] | Some h \<Rightarrow> [GeometryDispose h])"
  by (simp add: disposeGeometry_def split: option.splits)

lemma invocations_disposeTexture:
  "invocations (disposeTexture throws t) = (case t of None \<Rightarrow> [] | Some h \<Rightarrow> [TextureDispose h])"
  by (simp add: disposeTexture_def split: option.splits)

lemma invocations_texture_props:
  "invocations (concat (map (\<lambda>kv. case snd kv of
                                    TextureValue t \<Rightarrow> disposeTexture throws (Some t)
                                  | OtherValue \<Rightarrow> []) ps))
   = concat (map (\<lambda>kv. case snd kv of TextureValue t \<Rightarrow> [TextureDispose t] | OtherValue \<Rightarrow> []) ps)"
  by (induction ps)
     (simp_all add: invocations_append invocations_disposeTexture split: prop_value.splits)

lemma invocations_disposeMaterial_each:
  "invocations (disposeMaterial_each throws mat) = material_refs mat"
  by (simp add: invocations_append invocations_texture_props)

lemma invocations_materials:
  "invocations (concat (map (disposeMaterial_each throws) ms)) = concat (map material_refs ms)"
  by (induction ms)
     (simp_all add: invocations_append invocations_disposeMaterial_each
        del: disposeMaterial_each.simps material_refs.simps)

lemma invocations_own:
  "invocations ((case g of Absent \<Rightarrow> [] | _ \<Rightarrow> disposeGeometry throws (slot_value g))
                @ (case m of Absent \<Rightarrow> [] | _ \<Rightarrow> disposeMaterial throws (slot_value m)))
   = own_refs (Object3D i g m cs)"
  by (cases g; cases m)
     (simp_all add: invocations_append invocations_disposeGeometry disposeMaterial_def
        invocations_materials split: material_value.splits)

lemma obj_id_node: "obj_id (fst (disposeObject3D_node throws obj)) = obj_id obj"
  by (cases obj) (simp add: Let_def)

lemma invocations_node:
  "invocations (snd (disposeObject3D_node throws obj)) = concat (map object_calls (postorder obj))"
proof (induction obj rule: postorder.induct)
  case (1 i g m cs)
  have kids: "concat (map (\<lambda>c. invocations (snd (disposeObject3D_node throws c))) cs)
              = concat (map object_calls (concat (map postorder cs)))"
    using "1.IH" by (induction cs) simp_all
  have own: "invocations ((case g of Absent \<Rightarrow> [] | _ \<Rightarrow> disposeGeometry throws (slot_value g))
                @ (case m of Absent \<Rightarrow> [] | _ \<Rightarrow> disposeMaterial throws (slot_value m)))
             = own_refs (Object3D i g m cs)"
    by (rule invocations_own)
  have this_object: "object_calls (Object3D i g m cs)
                     = own_refs (Object3D i g m cs) @ [RemoveFromParent i]"
    by (simp add: object_calls_def)
  show ?case
    using kids own
    by (simp add: Let_def invocations_append invocations_concat comp_def this_object
          del: own_refs.simps)
qed


lemma is_dispose_material_refs: "filter is_dispose (material_refs mat) = material_refs mat"
proof -
  have "filter is_dispose
          (concat (map (\<lambda>kv. case snd kv of TextureValue t \<Rightarrow> [TextureDispose t] | OtherValue \<Rightarrow> []) ps))
        = concat (map (\<lambda>kv. case snd kv of TextureValue t \<Rightarrow> [TextureDispose t] | OtherValue \<Rightarrow> []) ps)"
    for ps :: "(string \<times> prop_value) list"
    by (induction ps) (simp_all split: prop_value.splits)
  then show ?thesis by simp
qed

lemma is_dispose_materials:
  "filter is_dispose (concat (map material_refs ms)) = concat (map material_refs ms)"
  by (induction ms) (simp_all add: is_dispose_material_refs del: material_refs.simps)

lemma is_dispose_own_refs: "filter is_dispose (own_refs obj) = own_refs obj"
  by (cases obj)
     (simp add: is_dispose_material_refs is_dispose_materials
        split: slot.splits material_value.splits del: material_refs.simps)

lemma is_dispose_object_calls: "filter is_dispose (object_calls obj) = own_refs obj"
  by (simp add: object_calls_def is_dispose_own_refs)

lemma dispose_calls_postorder:
  "filter is_dispose (concat (map object_calls objs)) = concat (map own_refs objs)"
  by (induction objs) (simp_all add: is_dispose_object_calls)

lemma count_list_filter:
  "count_list (filter P xs) x = (if P x then count_list xs x else 0)"
  by (induction xs) auto

lemma count_list_distinct: "distinct xs \<Longrightarrow> x \<in> set xs \<Longrightarrow> count_list xs x = 1"
  by (induction xs) auto

lemma is_dispose_resource_refs: "c \<in> set (resource_refs obj) \<Longrightarrow> is_dispose c"
proof -
  assume "c \<in> set (resource_refs obj)"
  then have "c \<in> set (filter is_dispose (concat (map object_calls (postorder obj))))"
    by (simp only: dispose_calls_postorder resource_refs_def)
  then show "is_dispose c" by simp
qed

text \<open>Errors: one \<^verbatim>\<open>console.error\<close> for every invoked method that throws, and no other.\<close>

lemma errors_logged_append: "errors_logged (xs @ ys) = errors_logged xs @ errors_logged ys"
  by (induction xs rule: errors_logged.induct) simp_all

lemma logged_concat:
  "(\<And>x. x \<in> set xss \<Longrightarrow>
      length (errors_logged x) = length (filter throws (invocations x))) \<Longrightarrow>
   length (errors_logged (concat xss)) = length (filter throws (invocations (concat xss)))"
  by (induction xss) (simp_all add: errors_logged_append invocations_append)

lemma logged_disposeGeometry:
  "length (errors_logged (disposeGeometry throws g))
   = length (filter throws (invocations (disposeGeometry throws g)))"
  by (simp add: disposeGeometry_def split: option.splits)

lemma logged_disposeTexture:
  "length (errors_logged (disposeTexture throws t))
   = length (filter throws (invocations (disposeTexture throws t)))"
  by (simp add: disposeTexture_def split: option.splits)

lemma logged_disposeMaterial_each:
  "length (errors_logged (disposeMaterial_each throws mat))
   = length (filter throws (invocations (disposeMaterial_each throws mat)))"
proof -
  let ?textures = "concat (map (\<lambda>kv. case snd kv of
                                  TextureValue t \<Rightarrow> disposeTexture throws (Some t)
                                | OtherValue \<Rightarrow> []) (props mat))"
  have "length (errors_logged ?textures) = length (filter throws (invocations ?textures))"
  proof (rule logged_concat)
    fix x
    assume "x \<in> set (map (\<lambda>kv. case snd kv of
                                  TextureValue t \<Rightarrow> disposeTexture throws (Some t)
                                | OtherValue \<Rightarrow> []) (props mat))"
    then obtain kv where "x = (case snd kv of
                                  TextureValue t \<Rightarrow> disposeTexture throws (Some t)
                                | OtherValue \<Rightarrow> [])"
      by auto
    then show "length (errors_logged x) = length (filter throws (invocations x))"
      by (cases "snd kv") (simp_all add: logged_disposeTexture)
  qed
  then show ?thesis
    by (simp add: errors_logged_append invocations_append)
qed

lemma logged_disposeMaterial:
  "length (errors_logged (disposeMaterial throws m))
   = length (filter throws (invocations (disposeMaterial throws m)))"
proof (cases m)
  case None
  then show ?thesis by (simp add: disposeMaterial_def)
next
  case (Some mv)
  have "length (errors_logged (concat (map (disposeMaterial_each throws) ms)))
        = length (filter throws (invocations (concat (map (disposeMaterial_each throws) ms))))"
    for ms
  proof (rule logged_concat)
    fix x
    assume "x \<in> set (map (disposeMaterial_each throws) ms)"
    then obtain mat where "x = disposeMaterial_each throws mat" by auto
    then show "length (errors_logged x) = length (filter throws (invocations x))"
      by (simp only: logged_disposeMaterial_each)
  qed
  then show ?thesis
    using Some by (simp add: disposeMaterial_def Let_def del: disposeMaterial_each.simps)
qed

lemma logged_node:
  "length (errors_logged (snd (disposeObject3D_node throws obj)))
   = length (filter throws (invocations (snd (disposeObject3D_node throws obj))))"
proof (induction obj rule: postorder.induct)
  case (1 i g m cs)
  let ?kids = "concat (map (\<lambda>c. snd (disposeObject3D_node throws c)) cs)"
  let ?geometry = "case g of Absent \<Rightarrow> [] | _ \<Rightarrow> disposeGeometry throws (slot_value g)"
  let ?material = "case m of Absent \<Rightarrow> [] | _ \<Rightarrow> disposeMaterial throws (slot_value m)"
  have kids: "length (errors_logged ?kids) = length (filter throws (invocations ?kids))"
  proof (rule logged_concat)
    fix x
    assume "x \<in> set (map (\<lambda>c. snd (disposeObject3D_node throws c)) cs)"
    then obtain c where c: "c \<in> set cs" "x = snd (disposeObject3D_node throws c)"
      by auto
    from "1.IH" [OF c(1)] c(2)
    show "length (errors_logged x) = length (filter throws (invocations x))"
      by blast
  qed
  have own_geometry:
    "length (errors_logged ?geometry) = length (filter throws (invocations ?geometry))"
    by (cases g) (simp_all add: logged_disposeGeometry)
  have own_material:
    "length (errors_logged ?material) = length (filter throws (invocations ?material))"
    by (cases m) (simp_all add: logged_disposeMaterial)
  show ?case
    using kids own_geometry own_material
    by (simp add: Let_def errors_logged_append invocations_append comp_def)
qed

text \<open>After a call in which no \<^verbatim>\<open>removeFromParent\<close> throws, no child is attached.\<close>

lemma node_detaches_children:
  "\<forall>h. \<not> throws (RemoveFromParent h) \<Longrightarrow>
   fst (disposeObject3D_node throws (Object3D i g m cs)) = Object3D i g m []"
  by (simp add: Let_def)

text \<open>
  The second call may meet methods that throw where the first did not, and the reverse:
  each call has an oracle of its own.
\<close>

lemma second_call_invocations:
  assumes "\<forall>h. \<not> first_throws (RemoveFromParent h)"
  shows "invocations (snd (disposeObject3D_node second_throws
                             (fst (disposeObject3D_node first_throws obj))))
         = object_calls obj"
proof (cases obj)
  case (Object3D i g m cs)
  have "invocations (snd (disposeObject3D_node second_throws (Object3D i g m [])))
        = concat (map object_calls (postorder (Object3D i g m [])))"
    by (rule invocations_node)
  then show ?thesis
    using assms Object3D by (simp add: Let_def object_calls_def)
qed

subsection \<open>Claims on the disposer\<close>

text \<open>
  C5 (as amended). For every object graph and whatever the invoked methods throw,
  \<^verbatim>\<open>disposeObject3D\<close> invokes the methods in depth-first order with every child
  completely handled before its parent's own geometry and materials (for each material its
  texture-valued properties, then the material). A resource's \<^verbatim>\<open>dispose\<close> is invoked
  once for every reference to it in the graph; it is invoked exactly once for every
  reachable resource when no resource is referenced twice.
\<close>

theorem disposeObject3D_children_first:
  "invocations (snd (disposeObject3D throws (Some obj))) = concat (map object_calls (postorder obj))
   \<and> filter is_dispose (invocations (snd (disposeObject3D throws (Some obj)))) = resource_refs obj
   \<and> (distinct (resource_refs obj) \<longrightarrow>
        (\<forall>c \<in> set (resource_refs obj).
           count_list (invocations (snd (disposeObject3D throws (Some obj)))) c = 1))"
proof -
  let ?calls = "invocations (snd (disposeObject3D throws (Some obj)))"
  have order: "?calls = concat (map object_calls (postorder obj))"
    by (simp add: disposeObject3D_def invocations_node)
  have refs: "filter is_dispose ?calls = resource_refs obj"
    by (simp only: order dispose_calls_postorder resource_refs_def)
  have once: "count_list ?calls c = 1" if "distinct (resource_refs obj)" "c \<in> set (resource_refs obj)" for c
  proof -
    have "count_list (filter is_dispose ?calls) c = 1"
      using that by (simp only: refs count_list_distinct)
    moreover have "is_dispose c" using that(2) by (rule is_dispose_resource_refs)
    ultimately show ?thesis by (simp add: count_list_filter)
  qed
  show ?thesis using order refs once by blast
qed

theorem disposeObject3D_children_first_witness:
  "distinct (resource_refs nested_graph)
   \<and> invocations (snd (disposeObject3D never (Some nested_graph)))
       = [GeometryDispose 12, TextureDispose 32, MaterialDispose 22, RemoveFromParent 2,
          GeometryDispose 11, TextureDispose 31, MaterialDispose 21, RemoveFromParent 1,
          GeometryDispose 10, TextureDispose 30, MaterialDispose 20, RemoveFromParent 0]
   \<and> count_list (invocations (snd (disposeObject3D never (Some nested_graph)))) (TextureDispose 32) = 1
   \<and> count_list (invocations (snd (disposeObject3D never (Some nested_graph)))) (TextureDispose 31) = 1
   \<and> count_list (invocations (snd (disposeObject3D never (Some nested_graph)))) (TextureDispose 30) = 1"
proof -
  have d: "distinct (resource_refs nested_graph)"
    by (simp add: resource_refs_def nested_graph_def)
  have m: "TextureDispose 32 \<in> set (resource_refs nested_graph)"
          "TextureDispose 31 \<in> set (resource_refs nested_graph)"
          "TextureDispose 30 \<in> set (resource_refs nested_graph)"
    by (simp_all add: resource_refs_def nested_graph_def)
  have o: "concat (map object_calls (postorder nested_graph))
       = [GeometryDispose 12, TextureDispose 32, MaterialDispose 22, RemoveFromParent 2,
          GeometryDispose 11, TextureDispose 31, MaterialDispose 21, RemoveFromParent 1,
          GeometryDispose 10, TextureDispose 30, MaterialDispose 20, RemoveFromParent 0]"
    by (simp add: nested_graph_def object_calls_def)
  show ?thesis
    using disposeObject3D_children_first [of never nested_graph] d m o by metis
qed

text \<open>
  C5 as the specification states it fails where a resource is shared: the material 7 and
  its texture 8, referenced by two meshes, are each disposed twice in one call.
\<close>

theorem disposeObject3D_exactly_once_counterexample:
  "\<not> (\<forall>c \<in> set (resource_refs shared_material_graph).
         count_list (invocations (snd (disposeObject3D never (Some shared_material_graph)))) c = 1)"
proof -
  have "MaterialDispose 7 \<in> set (resource_refs shared_material_graph)"
    by (simp add: resource_refs_def shared_material_graph_def)
  moreover have "count_list (invocations (snd (disposeObject3D never (Some shared_material_graph))))
                   (MaterialDispose 7) = 2"
    by (simp add: disposeObject3D_def shared_material_graph_def Let_def disposeGeometry_def
          disposeMaterial_def disposeTexture_def never_def)
  ultimately show ?thesis by force
qed

text \<open>
  C6 (as amended). \<^verbatim>\<open>disposeObject3D(null)\<close> does nothing. In a second call on an
  object already disposed, whatever the methods invoked in either call throw, every error
  thrown is caught and logged: the call logs one error for each method it invokes that
  throws in that call, and none when none of them throws. Where no
  \<^verbatim>\<open>removeFromParent\<close> has thrown in the first call, the second call no longer visits
  the former children, which the first call detached, but it invokes again the
  \<^verbatim>\<open>dispose\<close> of the object's own geometry, of its materials and of their textures,
  and \<^verbatim>\<open>removeFromParent\<close>: the resources it disposes are exactly those the object
  itself refers to.
\<close>

theorem disposeObject3D_second_call:
  "disposeObject3D second_throws None = (None, [])
   \<and> length (errors_logged (snd (disposeObject3D second_throws
                                   (fst (disposeObject3D first_throws (Some obj))))))
       = length (filter second_throws
                   (invocations (snd (disposeObject3D second_throws
                                        (fst (disposeObject3D first_throws (Some obj)))))))
   \<and> ((\<forall>h. \<not> first_throws (RemoveFromParent h)) \<longrightarrow>
        invocations (snd (disposeObject3D second_throws
                            (fst (disposeObject3D first_throws (Some obj)))))
        = own_refs obj @ [RemoveFromParent (obj_id obj)]
        \<and> filter is_dispose
            (invocations (snd (disposeObject3D second_throws
                                 (fst (disposeObject3D first_throws (Some obj))))))
          = own_refs obj
        \<and> length (errors_logged (snd (disposeObject3D second_throws
                                        (fst (disposeObject3D first_throws (Some obj))))))
          = length (filter second_throws (own_refs obj @ [RemoveFromParent (obj_id obj)])))"
proof -
  let ?second = "snd (disposeObject3D second_throws (fst (disposeObject3D first_throws (Some obj))))"
  have null: "disposeObject3D second_throws None = (None, [])"
    by (simp add: disposeObject3D_def)
  have logged: "length (errors_logged ?second) = length (filter second_throws (invocations ?second))"
    by (simp add: disposeObject3D_def logged_node)
  have own: "invocations ?second = own_refs obj @ [RemoveFromParent (obj_id obj)]"
    if "\<forall>h. \<not> first_throws (RemoveFromParent h)"
    using that by (simp add: disposeObject3D_def second_call_invocations object_calls_def)
  have disposed: "filter is_dispose (invocations ?second) = own_refs obj"
    if "\<forall>h. \<not> first_throws (RemoveFromParent h)"
    using own [OF that] by (simp add: is_dispose_own_refs)
  show ?thesis
    using null logged own disposed by metis
qed

theorem disposeObject3D_second_call_witness:
  "(\<forall>h. \<not> never (RemoveFromParent h))
   \<and> invocations (snd (disposeObject3D (only (GeometryDispose 10))
                          (fst (disposeObject3D never (Some nested_graph)))))
       = [GeometryDispose 10, TextureDispose 30, MaterialDispose 20, RemoveFromParent 0]
   \<and> length (errors_logged (snd (disposeObject3D (only (GeometryDispose 10))
                          (fst (disposeObject3D never (Some nested_graph)))))) = 1
   \<and> length (errors_logged (snd (disposeObject3D never
                          (fst (disposeObject3D never (Some nested_graph)))))) = 0
   \<and> disposeObject3D never None = (None, [])"
  using disposeObject3D_second_call [of "only (GeometryDispose 10)" never nested_graph]
        disposeObject3D_second_call [of never never nested_graph]
  by (simp add: never_def only_def nested_graph_def)

text \<open>
  C6 as the specification states it fails: the second call on a mesh disposes the mesh's
  geometry a second time.
\<close>

theorem disposeObject3D_idempotent_counterexample:
  "filter is_dispose
     (invocations (snd (disposeObject3D never
        (fst (disposeObject3D never (Some (Object3D 0 (Present 1) Absent [])))))))
   = [GeometryDispose 1]
   \<and> snd (disposeObject3D never
        (fst (disposeObject3D never (Some (Object3D 0 (Present 1) Absent []))))) \<noteq> []"
  by (simp add: disposeObject3D_def Let_def disposeGeometry_def never_def)

section \<open>Properties of ReducedMotion\<close>

text \<open>
  C4 (as amended). With the preference active, \<^verbatim>\<open>getAdjustedDuration(normal)\<close>
  returns the reduced duration: the explicit second argument when supplied, and otherwise
  the fixed 0.01 s, which is at most 1% of \<open>normal\<close> exactly when \<open>normal\<close> is at least
  one second. With the preference not active it returns exactly \<open>normal\<close>.
\<close>

theorem getAdjustedDuration_fixed_reduced:
  "fst (getAdjustedDuration window mediaQuery normal reduced)
     = (if fst (isReduced window mediaQuery)
        then (case reduced of None \<Rightarrow> 1 / 100 | Some r \<Rightarrow> r) else normal)
   \<and> (fst (isReduced window mediaQuery) \<longrightarrow>
        (fst (getAdjustedDuration window mediaQuery normal None) \<le> normal / 100) = (1 \<le> normal))"
  by (simp add: getAdjustedDuration_def)

theorem getAdjustedDuration_fixed_reduced_witness:
  "fst (isReduced reduced_window None)
   \<and> fst (getAdjustedDuration reduced_window None 2 None) = 1 / 100
   \<and> fst (getAdjustedDuration reduced_window None 2 None) \<le> 2 / 100
   \<and> fst (getAdjustedDuration reduced_window None 2 (Some 0)) = 0
   \<and> fst (getAdjustedDuration normal_window None 2 None) = 2"
  using getAdjustedDuration_fixed_reduced [of reduced_window None 2 None]
        getAdjustedDuration_fixed_reduced [of reduced_window None 2 "Some 0"]
        getAdjustedDuration_fixed_reduced [of normal_window None 2 None]
  by (simp add: isReduced_def reduced_window_def normal_window_def)

text \<open>
  C4 as the specification states it fails for a duration under one second: for the
  camera's default 0.6 s the result 0.01 s is more than 1% of it.
\<close>

theorem getAdjustedDuration_one_percent_counterexample:
  "fst (isReduced reduced_window None) \<and> (0::real) \<le> 6 / 10
   \<and> \<not> (fst (getAdjustedDuration reduced_window None (6 / 10) None) \<le> (6 / 10) / 100)"
  by (simp add: getAdjustedDuration_def isReduced_def reduced_window_def)

section \<open>Properties of the PerformanceMonitor\<close>

lemma validateBudgets_histories:
  "frameTimeHistory (snd (validateBudgets now metrics pm)) = frameTimeHistory pm"
  "fpsHistory (snd (validateBudgets now metrics pm)) = fpsHistory pm"
  "historySize (snd (validateBudgets now metrics pm)) = historySize pm"
  by (simp_all add: validateBudgets_def Let_def)

lemma update_fpsHistory:
  "fpsHistory (snd (snd (update renderer now now' pm)))
     = (if length (frameTimeHistory pm) + 1 > historySize pm
        then tl (fpsHistory pm @ [fps_sample now pm])
        else fpsHistory pm @ [fps_sample now pm])"
  by (simp add: update_def Let_def validateBudgets_histories fps_sample_def)

lemma update_frameTimeHistory:
  "frameTimeHistory (snd (snd (update renderer now now' pm)))
     = (if length (frameTimeHistory pm) + 1 > historySize pm
        then tl (frameTimeHistory pm @ [frame_sample now pm])
        else frameTimeHistory pm @ [frame_sample now pm])"
  by (simp add: update_def Let_def validateBudgets_histories frame_sample_def)

lemma update_historySize: "historySize (snd (snd (update renderer now now' pm))) = historySize pm"
  by (simp add: update_def Let_def validateBudgets_histories)

lemma monitor_inv_new: "monitor_inv (new_PerformanceMonitor now)"
  by (simp add: monitor_inv_def new_PerformanceMonitor_def)

lemma monitor_inv_step: "monitor_inv pm \<Longrightarrow> monitor_inv (monitor_step pm c)"
proof (cases c)
  case (Update renderer now now')
  assume "monitor_inv pm"
  then show ?thesis
    unfolding Update monitor_inv_def monitor_step.simps
      update_fpsHistory update_frameTimeHistory update_historySize
    by auto
next
  case (SetIsLandingScene b)
  assume "monitor_inv pm"
  then show ?thesis by (simp add: SetIsLandingScene monitor_inv_def setIsLandingScene_def)
next
  case (GetMetrics r)
  assume "monitor_inv pm"
  then show ?thesis by (simp add: GetMetrics)
next
  case (Reset now)
  assume "monitor_inv pm"
  then show ?thesis by (simp add: Reset monitor_inv_def reset_def)
qed

lemma monitor_inv_run: "monitor_inv pm \<Longrightarrow> monitor_inv (monitor_run calls pm)"
  unfolding monitor_run_def
  by (induction calls arbitrary: pm) (simp_all add: monitor_inv_step)

lemma monitor_run_snoc: "monitor_run (calls @ [c]) pm = monitor_step (monitor_run calls pm) c"
  by (simp add: monitor_run_def)

lemma tl_snoc: "xs \<noteq> [] \<Longrightarrow> tl (xs @ [x]) = tl xs @ [x]"
  by (cases xs) simp_all

lemma update_below_capacity:
  assumes "monitor_inv pm" "length (fpsHistory pm) < 120"
  shows "fpsHistory (snd (snd (update renderer now now' pm))) = fpsHistory pm @ [fps_sample now pm]"
    and "frameTimeHistory (snd (snd (update renderer now now' pm)))
         = frameTimeHistory pm @ [frame_sample now pm]"
  using assms by (simp_all add: update_fpsHistory update_frameTimeHistory monitor_inv_def)

lemma update_at_capacity:
  assumes "monitor_inv pm" "length (fpsHistory pm) = 120"
  shows "fpsHistory (snd (snd (update renderer now now' pm)))
         = tl (fpsHistory pm) @ [fps_sample now pm]"
    and "frameTimeHistory (snd (snd (update renderer now now' pm)))
         = tl (frameTimeHistory pm) @ [frame_sample now pm]"
proof -
  have ne: "fpsHistory pm \<noteq> []" "frameTimeHistory pm \<noteq> []"
    using assms by (auto simp: monitor_inv_def)
  show "fpsHistory (snd (snd (update renderer now now' pm)))
         = tl (fpsHistory pm) @ [fps_sample now pm]"
    using assms ne by (simp add: update_fpsHistory monitor_inv_def tl_snoc)
  show "frameTimeHistory (snd (snd (update renderer now now' pm)))
         = tl (frameTimeHistory pm) @ [frame_sample now pm]"
    using assms ne by (simp add: update_frameTimeHistory monitor_inv_def tl_snoc)
qed

text \<open>The length of the history after \<open>n\<close> further updates.\<close>

lemma updates_length:
  "monitor_inv pm \<Longrightarrow>
   length (fpsHistory (monitor_run (replicate n (Update renderer now now')) pm))
     = min 120 (length (fpsHistory pm) + n)"
proof (induction n)
  case 0
  then show ?case by (simp add: monitor_run_def monitor_inv_def)
next
  case (Suc n)
  let ?pm = "monitor_run (replicate n (Update renderer now now')) pm"
  have inv: "monitor_inv ?pm" using Suc.prems by (rule monitor_inv_run)
  have run: "monitor_run (replicate (Suc n) (Update renderer now now')) pm
             = monitor_step ?pm (Update renderer now now')"
  proof -
    have "replicate (Suc n) (Update renderer now now')
          = replicate n (Update renderer now now') @ [Update renderer now now']"
      by (simp add: replicate_append_same)
    then show ?thesis by (simp only: monitor_run_snoc)
  qed
  have IH: "length (fpsHistory ?pm) = min 120 (length (fpsHistory pm) + n)"
    using Suc by simp
  show ?case
    unfolding run monitor_step.simps
  proof (cases "length (fpsHistory ?pm) < 120")
    case True
    then show "length (fpsHistory (snd (snd (update renderer now now' ?pm))))
               = min 120 (length (fpsHistory pm) + Suc n)"
      using IH by (simp add: update_below_capacity(1) [OF inv])
  next
    case False
    then have full: "length (fpsHistory ?pm) = 120"
      using inv by (simp add: monitor_inv_def)
    then show "length (fpsHistory (snd (snd (update renderer now now' ?pm))))
               = min 120 (length (fpsHistory pm) + Suc n)"
      using IH by (simp add: update_at_capacity(1) [OF inv])
  qed
qed

text \<open>
  C9. After any sequence of calls on a new monitor, the FPS and frame-time histories hold
  at most 120 samples. An \<^verbatim>\<open>update()\<close> below capacity appends its sample; an
  \<^verbatim>\<open>update()\<close> at capacity drops exactly the oldest sample of each history and appends
  the new one.
\<close>

theorem update_history_bounded_fifo:
  "length (fpsHistory (monitor_run calls (new_PerformanceMonitor t0))) \<le> 120
   \<and> length (frameTimeHistory (monitor_run calls (new_PerformanceMonitor t0))) \<le> 120
   \<and> (length (fpsHistory (monitor_run calls (new_PerformanceMonitor t0))) < 120 \<longrightarrow>
        fpsHistory (snd (snd (update renderer now now' (monitor_run calls (new_PerformanceMonitor t0)))))
        = fpsHistory (monitor_run calls (new_PerformanceMonitor t0))
          @ [fps_sample now (monitor_run calls (new_PerformanceMonitor t0))])
   \<and> (length (fpsHistory (monitor_run calls (new_PerformanceMonitor t0))) = 120 \<longrightarrow>
        fpsHistory (snd (snd (update renderer now now' (monitor_run calls (new_PerformanceMonitor t0)))))
        = tl (fpsHistory (monitor_run calls (new_PerformanceMonitor t0)))
          @ [fps_sample now (monitor_run calls (new_PerformanceMonitor t0))]
        \<and> frameTimeHistory (snd (snd (update renderer now now' (monitor_run calls (new_PerformanceMonitor t0)))))
        = tl (frameTimeHistory (monitor_run calls (new_PerformanceMonitor t0)))
          @ [frame_sample now (monitor_run calls (new_PerformanceMonitor t0))])"
proof -
  let ?pm = "monitor_run calls (new_PerformanceMonitor t0)"
  have inv: "monitor_inv ?pm"
    by (rule monitor_inv_run) (rule monitor_inv_new)
  have bound: "length (fpsHistory ?pm) \<le> 120" "length (frameTimeHistory ?pm) \<le> 120"
    using inv by (simp_all add: monitor_inv_def)
  show ?thesis
    using bound update_below_capacity(1) [OF inv] update_at_capacity [OF inv] by blast
qed

theorem update_history_bounded_fifo_witness:
  "length (fpsHistory (monitor_run (replicate 120 (Update None 0 0)) (new_PerformanceMonitor 0))) = 120
   \<and> fpsHistory (snd (snd (update None 16 16
        (monitor_run (replicate 120 (Update None 0 0)) (new_PerformanceMonitor 0)))))
     = tl (fpsHistory (monitor_run (replicate 120 (Update None 0 0)) (new_PerformanceMonitor 0)))
       @ [fps_sample 16 (monitor_run (replicate 120 (Update None 0 0)) (new_PerformanceMonitor 0))]
   \<and> length (fpsHistory (monitor_run [] (new_PerformanceMonitor 0))) < 120
   \<and> fpsHistory (snd (snd (update None 16 16 (monitor_run [] (new_PerformanceMonitor 0)))))
     = [1000 / 16]"
proof -
  have full: "length (fpsHistory (monitor_run (replicate 120 (Update None 0 0)) (new_PerformanceMonitor 0))) = 120"
    using updates_length [OF monitor_inv_new, of 120 None 0 0 0]
    by (simp add: new_PerformanceMonitor_def)
  have empty: "monitor_run [] (new_PerformanceMonitor 0) = new_PerformanceMonitor 0"
    by (simp add: monitor_run_def)
  have first: "fpsHistory (new_PerformanceMonitor 0) = []"
              "fps_sample 16 (new_PerformanceMonitor 0) = 1000 / 16"
    by (simp_all add: new_PerformanceMonitor_def fps_sample_def)
  show ?thesis
    using full
      update_history_bounded_fifo [of "replicate 120 (Update None 0 0)" 0 None 16 16]
      update_history_bounded_fifo [of "[]" 0 None 16 16]
    by (simp add: empty first)
qed

text \<open>
  C10. On a monitor that has received any sequence of calls since its construction,
  \<^verbatim>\<open>getMetrics()\<close> returns \<^verbatim>\<open>null\<close> if and only if no \<^verbatim>\<open>update()\<close> has been
  called since construction or since the last \<^verbatim>\<open>reset()\<close>; right after a
  \<^verbatim>\<open>reset()\<close> it returns \<^verbatim>\<open>null\<close>.
\<close>

lemma update_nonempty:
  "monitor_inv pm \<Longrightarrow> fpsHistory (snd (snd (update renderer now now' pm))) \<noteq> []"
proof -
  assume inv: "monitor_inv pm"
  show ?thesis
  proof (cases "length (fpsHistory pm) < 120")
    case True
    then show ?thesis using inv by (simp add: update_below_capacity)
  next
    case False
    then have "length (fpsHistory pm) = 120" using inv by (simp add: monitor_inv_def)
    then show ?thesis using inv by (simp add: update_at_capacity)
  qed
qed

lemma history_empty_iff:
  "fpsHistory (monitor_run calls (new_PerformanceMonitor t0)) = [] \<longleftrightarrow> updates_since_reset calls = 0"
proof (induction calls rule: rev_induct)
  case Nil
  then show ?case
    by (simp add: monitor_run_def new_PerformanceMonitor_def updates_since_reset_def)
next
  case (snoc c calls)
  have inv: "monitor_inv (monitor_run calls (new_PerformanceMonitor t0))"
    by (rule monitor_inv_run) (rule monitor_inv_new)
  show ?case
  proof (cases c)
    case (Update renderer now now')
    then show ?thesis
      using update_nonempty [OF inv]
      by (simp add: monitor_run_snoc updates_since_reset_def)
  next
    case (SetIsLandingScene b)
    then show ?thesis
      using snoc by (simp add: monitor_run_snoc updates_since_reset_def setIsLandingScene_def)
  next
    case (GetMetrics r)
    then show ?thesis
      using snoc by (simp add: monitor_run_snoc updates_since_reset_def)
  next
    case (Reset now)
    then show ?thesis
      by (simp add: monitor_run_snoc updates_since_reset_def reset_def)
  qed
qed

theorem getMetrics_null_iff_no_update:
  "(getMetrics renderer (monitor_run calls (new_PerformanceMonitor t0)) = None)
     = (updates_since_reset calls = 0)
   \<and> getMetrics renderer (reset now (monitor_run calls (new_PerformanceMonitor t0))) = None"
proof -
  have "(getMetrics renderer (monitor_run calls (new_PerformanceMonitor t0)) = None)
        = (fpsHistory (monitor_run calls (new_PerformanceMonitor t0)) = [])"
    by (simp add: getMetrics_def)
  then show ?thesis
    by (simp add: history_empty_iff) (simp add: getMetrics_def reset_def)
qed

theorem getMetrics_null_iff_no_update_witness:
  "updates_since_reset [Update None 16 16, Reset 20] = 0
   \<and> getMetrics None (monitor_run [Update None 16 16, Reset 20] (new_PerformanceMonitor 0)) = None
   \<and> updates_since_reset [Reset 20, Update None 36 36] = 1
   \<and> getMetrics None (monitor_run [Reset 20, Update None 36 36] (new_PerformanceMonitor 0)) \<noteq> None
   \<and> getMetrics None (monitor_run [] (new_PerformanceMonitor 0)) = None"
  using getMetrics_null_iff_no_update [of None "[Update None 16 16, Reset 20]" 0 0]
        getMetrics_null_iff_no_update [of None "[Reset 20, Update None 36 36]" 0 0]
        getMetrics_null_iff_no_update [of None "[]" 0 0]
  by (simp add: updates_since_reset_def)

section \<open>Properties of the AssetLoader\<close>









text \<open>
  Calls made one after the other, with no load settling in between, on a url that is not
  cached: every call issues a load of its own.
\<close>

lemma model_call_miss:
  assumes "modelCache s u = None" "0 < (case r of None \<Rightarrow> 3 | Some n \<Rightarrow> n)"
  shows "fetches Model u (loadModel u r s) = fetches Model u s + 1"
    and "modelCache (loadModel u r s) = modelCache s"
  using assms
  by (simp_all add: loadModel_def load_call_def cache_of_def enter_loop_def fetches_def Let_def)

lemma back_to_back_calls_fetch_each:
  assumes "modelCache s u = None" "0 < (case r of None \<Rightarrow> 3 | Some n \<Rightarrow> n)"
  shows "fetches Model u (loader_run (replicate n (Call Model u r)) s) = fetches Model u s + n
         \<and> modelCache (loader_run (replicate n (Call Model u r)) s) = modelCache s"
proof (induction n)
  case 0
  then show ?case by (simp add: loader_run_def)
next
  case (Suc n)
  let ?s = "loader_run (replicate n (Call Model u r)) s"
  have step: "loader_run (replicate (Suc n) (Call Model u r)) s = loadModel u r ?s"
  proof -
    have "replicate (Suc n) (Call Model u r) = replicate n (Call Model u r) @ [Call Model u r]"
      by (simp add: replicate_append_same)
    then show ?thesis by (simp only: loader_run_def foldl_append) simp
  qed
  have miss: "modelCache ?s u = None"
    using Suc assms(1) by simp
  show ?case
    unfolding step using Suc model_call_miss [OF miss assms(2)] by simp
qed

subsection \<open>Claims on the loader\<close>




text \<open>
  C1 at two concurrent calls. Two \<^verbatim>\<open>loadModel\<close> calls for one url, the second made
  while the load of the first is in flight, issue two underlying loads; when the loads
  settle with the assets 1 and 2, the first caller receives 1 and the second 2, and the
  cache holds the asset that settled last. A call made after that issues no load.
\<close>

theorem loadModel_concurrent_calls_each_fetch:
  "fetches Model ''a.glb''
     (loader_run [Call Model ''a.glb'' None, Call Model ''a.glb'' None] new_AssetLoader) = 2
   \<and> outcomes (loader_run [Call Model ''a.glb'' None, Call Model ''a.glb'' None,
                           LoadSettled 0 (Inr 1), LoadSettled 1 (Inr 2)] new_AssetLoader)
       = [Resolved 1, Resolved 2]
   \<and> modelCache (loader_run [Call Model ''a.glb'' None, Call Model ''a.glb'' None,
                           LoadSettled 0 (Inr 1), LoadSettled 1 (Inr 2)] new_AssetLoader) ''a.glb''
       = Some 2
   \<and> fetches Model ''a.glb''
       (loader_run [Call Model ''a.glb'' None, Call Model ''a.glb'' None,
                    LoadSettled 0 (Inr 1), LoadSettled 1 (Inr 2), Call Model ''a.glb'' None]
          new_AssetLoader) = 2"
  by (simp add: loader_run_def loadModel_def load_call_def load_settled_def cache_of_def
        cache_set_def enter_loop_def new_AssetLoader_def fetches_def outcomes_def Let_def)

section \<open>Properties of the CameraController\<close>

lemma camera_run_snoc: "camera_run w (inputs @ [i]) c = camera_step w (camera_run w inputs c) i"
  by (simp add: camera_run_def)

lemma camera_run_Nil: "camera_run w [] c = c"
  by (simp add: camera_run_def)

lemma length_kill: "length (timelines (kill k c)) = length (timelines c)"
  by (simp add: kill_def)

lemma length_cancel: "length (timelines (cancelTransition c)) = length (timelines c)"
  by (simp add: cancelTransition_def length_kill split: option.splits)

text \<open>
  With the library's camera the executor of \<^verbatim>\<open>transitionTo\<close> throws before the
  assignment to \<^verbatim>\<open>activeTween\<close>: the field is never set.
\<close>

lemma transitionTo_rejects:
  "transitionTo w mq position target opts c
     = (length (timelines c),
        (cancelTransition c)\<lparr>timelines := timelines (cancelTransition c) @
          [\<lparr>status = Running, rendered = False, to_position = position, to_lookAt = None,
            tween_duration = fst (getAdjustedDuration w mq
               (case duration opts of None \<Rightarrow> 6 / 10 | Some v \<Rightarrow> v) (Some (1 / 100))),
            tween_ease = (case ease opts of None \<Rightarrow> ''power2.inOut'' | Some v \<Rightarrow> v),
            options = opts,
            promise = RejectedWith ''TypeError: target.set is not a function''\<rparr>]\<rparr>)"
  by (simp add: transitionTo_def getWorldDirection_def Let_def length_cancel)

lemma activeTween_cancel: "activeTween (cancelTransition c) = None"
  by (simp add: cancelTransition_def split: option.splits)

lemma cancel_without_active: "activeTween c = None \<Longrightarrow> cancelTransition c = c"
  by (simp add: cancelTransition_def)

lemma activeTween_step: "activeTween c = None \<Longrightarrow> activeTween (camera_step w c i) = None"
  by (cases i)
     (simp_all add: transitionTo_rejects activeTween_cancel setPosition_def dispose_def
        applyParallax_def updateAspect_def timeline_onStart_def timeline_onUpdate_def
        timeline_onComplete_def Let_def split: option.splits)

lemma activeTween_never_set: "activeTween (camera_run w inputs (new_CameraController p0)) = None"
proof (induction inputs rule: rev_induct)
  case Nil
  show ?case by (simp add: camera_run_Nil new_CameraController_def)
next
  case (snoc i inputs)
  then show ?case by (simp add: camera_run_snoc activeTween_step)
qed

lemma running_transitionTo:
  "activeTween c = None \<Longrightarrow>
   running (snd (transitionTo w mq position target opts c)) = running c + 1"
  by (simp add: transitionTo_rejects cancel_without_active running_def)

lemma running_transitions:
  "running (camera_run w (replicate n (TransitionTo position target opts)) (new_CameraController p0)) = n"
proof (induction n)
  case 0
  show ?case by (simp add: camera_run_Nil new_CameraController_def running_def)
next
  case (Suc n)
  let ?c = "camera_run w (replicate n (TransitionTo position target opts)) (new_CameraController p0)"
  have "replicate (Suc n) (TransitionTo position target opts)
        = replicate n (TransitionTo position target opts) @ [TransitionTo position target opts]"
    by (simp add: replicate_append_same)
  then have "camera_run w (replicate (Suc n) (TransitionTo position target opts)) (new_CameraController p0)
             = snd (transitionTo w None position target opts ?c)"
    by (simp only: camera_run_snoc camera_step.simps)
  moreover have "activeTween ?c = None" by (rule activeTween_never_set)
  ultimately show ?case using Suc by (simp add: running_transitionTo)
qed

text \<open>The promise of a timeline, once rejected, stays rejected.\<close>

lemma promise_of_kill: "promise_of (kill k c) t = promise_of c t"
  by (auto simp: promise_of_def kill_def nth_list_update)

lemma promise_of_cancel: "promise_of (cancelTransition c) t = promise_of c t"
proof (cases "activeTween c")
  case None
  then show ?thesis by (simp add: cancelTransition_def)
next
  case (Some k)
  have "promise_of (cancelTransition c) t = promise_of (kill k c) t"
    by (simp add: Some cancelTransition_def promise_of_def)
  then show ?thesis by (simp add: promise_of_kill)
qed

lemma promise_of_transitionTo_old:
  "t < length (timelines c) \<Longrightarrow>
   promise_of (snd (transitionTo w mq position target opts c)) t = promise_of c t"
proof -
  assume t: "t < length (timelines c)"
  then have "promise_of (snd (transitionTo w mq position target opts c)) t
             = promise_of (cancelTransition c) t"
    by (simp add: transitionTo_rejects promise_of_def length_cancel nth_append)
  then show ?thesis by (simp add: promise_of_cancel)
qed

lemma promise_of_transitionTo_new:
  "promise_of (snd (transitionTo w mq position target opts c))
     (fst (transitionTo w mq position target opts c))
   = Some (RejectedWith ''TypeError: target.set is not a function'')"
proof -
  have "(timelines (cancelTransition c) @ [tl]) ! length (timelines c) = tl" for tl
    by (metis length_cancel nth_append_length)
  then show ?thesis
    by (simp add: transitionTo_rejects promise_of_def length_cancel)
qed

lemma rejected_final_step:
  assumes "promise_of c t = Some (RejectedWith e)"
  shows "promise_of (camera_step w c i) t = Some (RejectedWith e)"
proof -
  have t: "t < length (timelines c)"
    using assms by (simp add: promise_of_def split: if_splits)
  show ?thesis
  proof (cases i)
    case (TransitionTo position target opts)
    then show ?thesis using assms t by (simp add: promise_of_transitionTo_old)
  next
    case (SetPosition position target)
    have "promise_of (setPosition position target c) t = promise_of (cancelTransition c) t"
      by (simp add: setPosition_def Let_def promise_of_def split: option.splits)
    then show ?thesis using assms SetPosition by (simp add: promise_of_cancel)
  next
    case CancelTransition
    then show ?thesis using assms by (simp add: promise_of_cancel)
  next
    case (ApplyParallax px py strength)
    have "promise_of (applyParallax px py strength c) t = promise_of c t"
      by (simp add: applyParallax_def Let_def promise_of_def)
    then show ?thesis using assms ApplyParallax by simp
  next
    case (UpdateAspect width height)
    have "promise_of (updateAspect width height c) t = promise_of c t"
      by (simp add: updateAspect_def promise_of_def)
    then show ?thesis using assms UpdateAspect by simp
  next
    case Dispose
    then show ?thesis using assms by (simp add: dispose_def promise_of_cancel)
  next
    case (TimelineStart k)
    have "promise_of (timeline_onStart k c) t = promise_of c t"
      by (auto simp: timeline_onStart_def Let_def promise_of_def nth_list_update)
    then show ?thesis using assms TimelineStart by simp
  next
    case (TimelineUpdate k p d)
    have "promise_of (timeline_onUpdate k p d c) t = promise_of c t"
      by (auto simp: timeline_onUpdate_def Let_def promise_of_def split: option.splits)
    then show ?thesis using assms TimelineUpdate by simp
  next
    case (TimelineComplete k)
    have "promise (timelines c ! t) = RejectedWith e"
      using assms t by (simp add: promise_of_def)
    then have "promise_of (timeline_onComplete k c) t = Some (RejectedWith e)"
      using t by (auto simp: timeline_onComplete_def Let_def promise_of_def nth_list_update
          resolve_def)
    then show ?thesis using TimelineComplete by simp
  qed
qed

lemma rejected_final_run:
  "promise_of c t = Some (RejectedWith e) \<Longrightarrow>
   promise_of (camera_run w inputs c) t = Some (RejectedWith e)"
  by (induction inputs rule: rev_induct)
     (simp add: camera_run_Nil, simp add: camera_run_snoc rejected_final_step)

subsection \<open>Claims on the camera\<close>

text \<open>
  C7 at two \<^verbatim>\<open>transitionTo\<close> calls. On a controller of a camera of the library the
  executor of \<^verbatim>\<open>transitionTo\<close> throws before \<^verbatim>\<open>this.activeTween = timeline\<close>, so
  after any sequence of calls and callbacks \<^verbatim>\<open>activeTween\<close> is \<^verbatim>\<open>null\<close> and no
  call finds a transition to kill: \<open>n\<close> \<^verbatim>\<open>transitionTo\<close> calls leave \<open>n\<close> transitions
  running, two calls leave two, and a \<^verbatim>\<open>setPosition\<close> call after a
  \<^verbatim>\<open>transitionTo\<close> call leaves the transition running.
\<close>

theorem transitionTo_calls_all_keep_running:
  "activeTween (camera_run w inputs (new_CameraController p0)) = None
   \<and> running (camera_run w (replicate n (TransitionTo position target opts))
                (new_CameraController p0)) = n
   \<and> running (camera_run normal_window
        [TransitionTo (0, 0, 5) (0, 0, 0) default_options,
         TransitionTo (1, 2, 3) (0, 0, 0) default_options]
        (new_CameraController (0, 0, 10))) = 2
   \<and> running (camera_run normal_window
        [TransitionTo (0, 0, 5) (0, 0, 0) default_options, SetPosition (1, 2, 3) None]
        (new_CameraController (0, 0, 10))) = 1
   \<and> status_of (camera_run normal_window
        [TransitionTo (0, 0, 5) (0, 0, 0) default_options, SetPosition (1, 2, 3) None]
        (new_CameraController (0, 0, 10))) 0 = Some Running"
proof -
  have two: "running (camera_run normal_window
        [TransitionTo (0, 0, 5) (0, 0, 0) default_options,
         TransitionTo (1, 2, 3) (0, 0, 0) default_options]
        (new_CameraController (0, 0, 10))) = 2"
    by (simp add: camera_run_def transitionTo_rejects cancelTransition_def
          new_CameraController_def running_def)
  have set: "running (camera_run normal_window
        [TransitionTo (0, 0, 5) (0, 0, 0) default_options, SetPosition (1, 2, 3) None]
        (new_CameraController (0, 0, 10))) = 1"
      "status_of (camera_run normal_window
        [TransitionTo (0, 0, 5) (0, 0, 0) default_options, SetPosition (1, 2, 3) None]
        (new_CameraController (0, 0, 10))) 0 = Some Running"
    by (simp_all add: camera_run_def transitionTo_rejects cancelTransition_def setPosition_def
          new_CameraController_def running_def status_of_def Let_def)
  show ?thesis
    using two set by (simp add: activeTween_never_set running_transitions)
qed

text \<open>
  C8 at one \<^verbatim>\<open>transitionTo\<close> call. On a controller of a camera of the library the
  promise that \<^verbatim>\<open>transitionTo\<close> returns is rejected at once, with the
  \<^verbatim>\<open>TypeError\<close> thrown in its executor, and stays rejected whatever follows: when the
  timeline completes, \<^verbatim>\<open>resolve()\<close> has no effect on it. A \<^verbatim>\<open>cancelTransition\<close>
  call after the \<^verbatim>\<open>transitionTo\<close> call kills nothing: the timeline is still running
  and goes on to complete.
\<close>

theorem transitionTo_promise_rejected_at_once:
  "promise_of (camera_run w later (snd (transitionTo w mq position target opts c)))
     (fst (transitionTo w mq position target opts c))
   = Some (RejectedWith ''TypeError: target.set is not a function'')
   \<and> promise_of (camera_run normal_window
        [TransitionTo (0, 0, 5) (0, 0, 0) default_options, TimelineStart 0, TimelineComplete 0]
        (new_CameraController (0, 0, 10))) 0
     = Some (RejectedWith ''TypeError: target.set is not a function'')
   \<and> status_of (camera_run normal_window
        [TransitionTo (0, 0, 5) (0, 0, 0) default_options, TimelineStart 0, TimelineComplete 0]
        (new_CameraController (0, 0, 10))) 0 = Some Completed
   \<and> status_of (camera_run normal_window
        [TransitionTo (0, 0, 5) (0, 0, 0) default_options, CancelTransition]
        (new_CameraController (0, 0, 10))) 0 = Some Running
   \<and> status_of (camera_run normal_window
        [TransitionTo (0, 0, 5) (0, 0, 0) default_options, CancelTransition, TimelineComplete 0]
        (new_CameraController (0, 0, 10))) 0 = Some Completed"
proof -
  have general: "promise_of (camera_run w later (snd (transitionTo w mq position target opts c)))
     (fst (transitionTo w mq position target opts c))
   = Some (RejectedWith ''TypeError: target.set is not a function'')"
    by (rule rejected_final_run) (rule promise_of_transitionTo_new)
  have concrete:
    "promise_of (camera_run normal_window
        [TransitionTo (0, 0, 5) (0, 0, 0) default_options, TimelineStart 0, TimelineComplete 0]
        (new_CameraController (0, 0, 10))) 0
     = Some (RejectedWith ''TypeError: target.set is not a function'')"
    "status_of (camera_run normal_window
        [TransitionTo (0, 0, 5) (0, 0, 0) default_options, TimelineStart 0, TimelineComplete 0]
        (new_CameraController (0, 0, 10))) 0 = Some Completed"
    "status_of (camera_run normal_window
        [TransitionTo (0, 0, 5) (0, 0, 0) default_options, CancelTransition]
        (new_CameraController (0, 0, 10))) 0 = Some Running"
    "status_of (camera_run normal_window
        [TransitionTo (0, 0, 5) (0, 0, 0) default_options, CancelTransition, TimelineComplete 0]
        (new_CameraController (0, 0, 10))) 0 = Some Completed"
    by (simp_all add: camera_run_def transitionTo_rejects cancelTransition_def
          timeline_onStart_def timeline_onComplete_def new_CameraController_def
          default_options_def promise_of_def status_of_def resolve_def Let_def)
  show ?thesis using general concrete by simp
qed

section \<open>Properties of the SceneManager\<close>

lemma manager_inv_new: "manager_inv (new_SceneManager first)"
  by (simp add: manager_inv_def new_SceneManager_def)

lemma manager_inv_step: "manager_inv m \<Longrightarrow> manager_inv (manager_step m i)"
  by (cases i; cases "machine m")
     (auto simp: manager_inv_def navigate_def first_ready_def init_succeeded_def
        init_failed_def camera_progress_def camera_completed_def Let_def)

lemma manager_run_snoc: "manager_run (inputs @ [i]) m = manager_step (manager_run inputs m) i"
  by (simp add: manager_run_def)

lemma manager_inv_run: "manager_inv m \<Longrightarrow> manager_inv (manager_run inputs m)"
  by (induction inputs rule: rev_induct)
     (simp add: manager_run_def, simp add: manager_run_snoc manager_inv_step)

lemma navigate_keeps_current: "currentSceneId (snd (navigate toId m)) = currentSceneId m"
  by (cases "machine m") (simp_all add: navigate_def)

lemma navigations_keep_current:
  "currentSceneId (manager_run (map Navigate ids) m) = currentSceneId m"
  by (induction ids rule: rev_induct)
     (simp add: manager_run_def, simp add: manager_run_snoc navigate_keeps_current)

lemma navigate_rejected:
  "manager_inv m \<Longrightarrow> transitioning m \<or> toId = currentSceneId m \<Longrightarrow>
   navigate toId m = (TransitionRejected, m)"
  by (cases "machine m") (auto simp: navigate_def manager_inv_def)

text \<open>
  C2. After any sequence of navigation requests and completions on a new manager, at most
  one transition is in flight. A request made while the manager is transitioning, or for
  the current scene, is rejected and leaves the manager as it was. Navigation requests
  made one after the other with no completion in between keep at most one transition in
  flight and leave the current scene unchanged.
\<close>

theorem at_most_one_scene_transition:
  "length (inFlight (manager_run inputs (new_SceneManager first))) \<le> 1
   \<and> (transitioning (manager_run inputs (new_SceneManager first))
        \<or> toId = currentSceneId (manager_run inputs (new_SceneManager first)) \<longrightarrow>
        navigate toId (manager_run inputs (new_SceneManager first))
        = (TransitionRejected, manager_run inputs (new_SceneManager first)))
   \<and> length (inFlight (manager_run (map Navigate ids) (manager_run inputs (new_SceneManager first)))) \<le> 1
   \<and> currentSceneId (manager_run (map Navigate ids) (manager_run inputs (new_SceneManager first)))
       = currentSceneId (manager_run inputs (new_SceneManager first))"
proof -
  let ?m = "manager_run inputs (new_SceneManager first)"
  have inv: "manager_inv ?m"
    by (rule manager_inv_run) (rule manager_inv_new)
  have inv': "manager_inv (manager_run (map Navigate ids) ?m)"
    using inv by (rule manager_inv_run)
  have "length (inFlight ?m) \<le> 1" "length (inFlight (manager_run (map Navigate ids) ?m)) \<le> 1"
    using inv inv' by (simp_all add: manager_inv_def)
  then show ?thesis
    using navigate_rejected [OF inv] navigations_keep_current by blast
qed

theorem at_most_one_scene_transition_witness:
  "transitioning (manager_run [FirstReady, Navigate ''projects''] (new_SceneManager ''about''))
   \<and> navigate ''projects'' (manager_run [FirstReady, Navigate ''projects''] (new_SceneManager ''about''))
       = (TransitionRejected,
          manager_run [FirstReady, Navigate ''projects''] (new_SceneManager ''about''))
   \<and> inFlight (manager_run [FirstReady, Navigate ''projects'', Navigate ''projects'', Navigate ''contact'']
                 (new_SceneManager ''about'')) = [(''about'', ''projects'')]
   \<and> currentSceneId (manager_run [FirstReady, Navigate ''projects'', Navigate ''projects'', Navigate ''contact'']
                 (new_SceneManager ''about'')) = ''about''
   \<and> navigate ''about'' (manager_run [FirstReady] (new_SceneManager ''about''))
       = (TransitionRejected, manager_run [FirstReady] (new_SceneManager ''about''))"
proof -
  have t: "transitioning (manager_run [FirstReady, Navigate ''projects''] (new_SceneManager ''about''))"
    by (simp add: manager_run_def first_ready_def navigate_def new_SceneManager_def)
  have c: "currentSceneId (manager_run [FirstReady] (new_SceneManager ''about'')) = ''about''"
    by (simp add: manager_run_def first_ready_def new_SceneManager_def)
  have f: "inFlight (manager_run [FirstReady, Navigate ''projects'', Navigate ''projects'', Navigate ''contact'']
                 (new_SceneManager ''about'')) = [(''about'', ''projects'')]"
          "currentSceneId (manager_run [FirstReady, Navigate ''projects'', Navigate ''projects'', Navigate ''contact'']
                 (new_SceneManager ''about'')) = ''about''"
    by (simp_all add: manager_run_def first_ready_def navigate_def new_SceneManager_def)
  show ?thesis
    using t c f
      at_most_one_scene_transition [of "[FirstReady, Navigate ''projects'']" "''about''" "''projects''" "[]"]
      at_most_one_scene_transition [of "[FirstReady]" "''about''" "''about''" "[]"]
    by simp
qed
end
